theory Spec2Isabelle
  imports Complex_Main "HOL-Library.Word" "HOL-Library.AList" "HOL-Library.Multiset"
begin

section \<open>Go and framework values\<close>

text \<open>
  The provider is written in Go against the Terraform plugin framework. Three kinds of
  value of the source need a representation of their own.

  \<^item> A framework attribute (\<open>types.String\<close>, \<open>types.Bool\<close>, \<open>types.Int64\<close>) is null,
    unknown or a known value; \<open>ValueString\<close>, \<open>ValueBool\<close> and \<open>ValueInt64\<close> read it and
    give the zero value of the Go type when it is null or unknown.
  \<^item> A Go slice is either \<open>nil\<close> or holds a sequence; \<open>len\<close> of \<open>nil\<close> is 0 and a
    \<open>range\<close> over \<open>nil\<close> visits nothing. \<open>make([]T, 0, n)\<close> followed by appends is
    never \<open>nil\<close>.
  \<^item> A Go map is kept as the list of its entries, keys pairwise distinct;
    \<open>m[k] = v\<close> is \<open>AList.update k v m\<close> and a lookup is \<open>map_of m k\<close>. The position
    of an entry in that list means nothing: a \<open>range\<close> statement visits the keys in an
    order the Go runtime chooses afresh each time, and every function that ranges over a
    map takes that order as an argument. A \<open>nil\<close> map and an empty map agree on
    \<open>len\<close>, \<open>range\<close> and lookup, the only operations the source applies to a map it has
    not made itself, and both are the empty list.
\<close>

datatype 'a tfval = Null | Unknown | Known 'a

type_synonym int64 = "64 word"

abbreviation StringValue :: "string \<Rightarrow> string tfval" where
  "StringValue \<equiv> Known"

abbreviation BoolValue :: "bool \<Rightarrow> bool tfval" where
  "BoolValue \<equiv> Known"

abbreviation Int64Value :: "int64 \<Rightarrow> int64 tfval" where
  "Int64Value \<equiv> Known"

fun IsNull :: "'a tfval \<Rightarrow> bool" where
  "IsNull Null = True"
| "IsNull _ = False"

fun ValueString :: "string tfval \<Rightarrow> string" where
  "ValueString (Known s) = s"
| "ValueString _ = []"

fun ValueBool :: "bool tfval \<Rightarrow> bool" where
  "ValueBool (Known b) = b"
| "ValueBool _ = False"

fun ValueInt64 :: "int64 tfval \<Rightarrow> int64" where
  "ValueInt64 (Known i) = i"
| "ValueInt64 _ = 0"

type_synonym 'a slice = "'a list option"

definition len :: "'a slice \<Rightarrow> nat" where
  "len s = (case s of None \<Rightarrow> 0 | Some xs \<Rightarrow> length xs)"

definition elems :: "'a slice \<Rightarrow> 'a list" where
  "elems s = (case s of None \<Rightarrow> [] | Some xs \<Rightarrow> xs)"

type_synonym 'v gomap = "(string \<times> 'v) list"

definition range_map :: "string list \<Rightarrow> 'v gomap \<Rightarrow> (string \<times> 'v) list" where
  \<comment> \<open>the entries a \<open>range\<close> statement sees when it visits the keys in the order \<open>ks\<close>\<close>
  "range_map ks m = List.map_filter (\<lambda>k. map_option (Pair k) (map_of m k)) ks"


text \<open>
  A value of type \<open>interface{}\<close>, as far as the policy conditions meet one: what
  \<open>encoding/json\<close> decodes into an \<open>interface{}\<close> (nil, bool, float64, string,
  \<open>[]interface{}\<close>, \<open>map[string]interface{}\<close>) and the \<open>[]string\<close> that
  \<open>convertPolicyItemModel\<close> stores itself. A type assertion \<open>v.(T)\<close> succeeds only on
  the constructor of \<open>T\<close>.
\<close>

datatype iface =
    INil
  | IBool bool
  | IFloat64 rat
  | IString string
  | IStringSlice "string list"
  | ISlice "iface list"
  | IMap "(string \<times> iface) list"

section \<open>Diagnostics\<close>

datatype scan_error =
    UnexpectedNewline | EOF | ExpectedInteger | InvalidSyntax string | OutOfRange string

datatype go_error = Error string | ScanError scan_error

text \<open>
  The detail of a diagnostic is built with \<open>fmt.Sprintf\<close> and only shown to the operator;
  it is kept as the format with its operands.
\<close>

datatype operand = OpInt int | OpStr string | OpErr go_error

datatype message = Sprintf string "operand list"

datatype diag = ErrorDiagnostic string message | WarningDiagnostic string message

fun is_error :: "diag \<Rightarrow> bool" where
  "is_error (ErrorDiagnostic _ _) = True"
| "is_error (WarningDiagnostic _ _) = False"

definition HasError :: "diag list \<Rightarrow> bool" where
  "HasError diags = list_ex is_error diags"

fun Append :: "diag list \<Rightarrow> diag list \<Rightarrow> diag list" where
  \<comment> \<open>\<open>Diagnostics.Append\<close> leaves out a diagnostic the collection already contains\<close>
  "Append diags [] = diags"
| "Append diags (d # ds) = Append (if d \<in> set diags then diags else diags @ [d]) ds"

definition AddError :: "string \<Rightarrow> message \<Rightarrow> diag list \<Rightarrow> diag list" where
  "AddError summary detail diags = Append diags [ErrorDiagnostic summary detail]"

section \<open>The declarative model and the wire model\<close>

text \<open>
  Field names are those of the Go structs; the fields of the wire structs \<open>Policy\<close>,
  \<open>PolicyResources\<close>, \<open>PolicyItem\<close> and \<open>Access\<close> carry the prefixes \<open>P_\<close>, \<open>R_\<close>,
  \<open>I_\<close> and \<open>A_\<close>, since the declarative structs use the same names.
\<close>

record RangerPolicyResourcesModel =
  Type :: "string tfval"
  Values :: "string tfval slice"
  IsExclude :: "bool tfval"
  IsRecursive :: "bool tfval"

record RangerPolicyItemModel =
  Users :: "string tfval slice"
  Groups :: "string tfval slice"
  Roles :: "string tfval slice"
  Permissions :: "string tfval slice"
  DelegateAdmin :: "bool tfval"
  Conditions :: "string tfval slice gomap"

record RangerPolicyResourceModel =
  ID :: "string tfval"
  Name :: "string tfval"
  Service :: "string tfval"
  Description :: "string tfval"
  IsEnabled :: "bool tfval"
  IsAuditEnabled :: "bool tfval"
  Resources :: "RangerPolicyResourcesModel slice"
  PolicyItems :: "RangerPolicyItemModel slice"
  DenyItems :: "RangerPolicyItemModel slice"
  PolicyType :: "int64 tfval"

record PolicyResources =
  R_Values :: "string slice"
  R_IsExclude :: bool
  R_IsRecursive :: bool

record Access =
  A_Type :: string
  A_IsAllowed :: bool

record PolicyItem =
  I_Users :: "string slice"
  I_Groups :: "string slice"
  I_Roles :: "string slice"
  I_Accesses :: "Access slice"
  I_DelegateAdmin :: bool
  I_Conditions :: "iface gomap slice"

record Policy =
  P_ID :: int64
  P_Name :: string
  P_Service :: string
  P_Description :: string
  P_IsEnabled :: bool
  P_IsAuditEnabled :: bool
  P_Resources :: "PolicyResources gomap"
  P_PolicyItems :: "PolicyItem slice"
  P_DenyPolicyItems :: "PolicyItem slice"
  P_PolicyType :: int64

section \<open>Formatting integers\<close>

text \<open>\<open>fmt.Sprintf("%d", i)\<close>: the decimal digits, after a minus sign when \<open>i\<close> is negative.\<close>

fun digits :: "nat \<Rightarrow> string" where
  "digits n = (if n < 10 then [''0123456789'' ! n]
               else digits (n div 10) @ [''0123456789'' ! (n mod 10)])"

declare digits.simps [simp del]

definition Sprintf_d :: "int \<Rightarrow> string" where
  "Sprintf_d i = (if i < 0 then CHR ''-'' # digits (nat (- i)) else digits (nat i))"

section \<open>The model translator\<close>

text \<open>
  \<open>convertPolicyItemModel\<close>, declarative to wire. \<open>ks\<close> is the order in which the
  \<open>range\<close> over \<open>itemModel.Conditions\<close> visits the condition types.
\<close>

definition convertPolicyItemModel ::
  "string list \<Rightarrow> RangerPolicyItemModel \<Rightarrow> PolicyItem \<times> diag list" where
  "convertPolicyItemModel ks itemModel =
    (let diags = [];
         policyItem = \<lparr>I_Users = None, I_Groups = None, I_Roles = None, I_Accesses = None,
                       I_DelegateAdmin = ValueBool (DelegateAdmin itemModel),
                       I_Conditions = None\<rparr>;
         policyItem =
           (if len (Users itemModel) > 0
            then policyItem\<lparr>I_Users := Some (map ValueString (elems (Users itemModel)))\<rparr>
            else policyItem);
         policyItem =
           (if len (Groups itemModel) > 0
            then policyItem\<lparr>I_Groups := Some (map ValueString (elems (Groups itemModel)))\<rparr>
            else policyItem);
         policyItem =
           (if len (Roles itemModel) > 0
            then policyItem\<lparr>I_Roles := Some (map ValueString (elems (Roles itemModel)))\<rparr>
            else policyItem);
         policyItem =
           (if len (Permissions itemModel) > 0
            then policyItem\<lparr>I_Accesses :=
                   Some (map (\<lambda>perm. \<lparr>A_Type = ValueString perm, A_IsAllowed = True\<rparr>)
                           (elems (Permissions itemModel)))\<rparr>
            else policyItem);
         policyItem =
           (if length (Conditions itemModel) > 0
            then policyItem\<lparr>I_Conditions :=
                   Some (map (\<lambda>(condType, condValues).
                                [(''type'', IString condType),
                                 (''values'', IStringSlice (map ValueString (elems condValues)))])
                           (range_map ks (Conditions itemModel)))\<rparr>
            else policyItem)
     in (policyItem, diags))"

text \<open>
  \<open>convertPolicyItem\<close>, wire to declarative. One round of the loop over
  \<open>item.Conditions\<close> is \<open>condition_step\<close>: both type assertions must succeed, or the
  entry is passed over; of the values only the strings are kept.
\<close>

fun string_values :: "iface list \<Rightarrow> string tfval list" where
  "string_values [] = []"
| "string_values (IString strVal # vals) = StringValue strVal # string_values vals"
| "string_values (_ # vals) = string_values vals"

fun assert_string :: "iface option \<Rightarrow> string option" where
  \<comment> \<open>\<open>v.(string)\<close> on the value of a map lookup; a missing key gives the nil interface\<close>
  "assert_string (Some (IString s)) = Some s"
| "assert_string _ = None"

fun assert_slice :: "iface option \<Rightarrow> iface list option" where
  \<comment> \<open>\<open>v.([]interface{})\<close>\<close>
  "assert_slice (Some (ISlice vals)) = Some vals"
| "assert_slice _ = None"

definition condition_step ::
  "iface gomap \<Rightarrow> string tfval slice gomap \<Rightarrow> string tfval slice gomap" where
  "condition_step condition conds =
    (case assert_string (map_of condition ''type'') of
       None \<Rightarrow> conds
     | Some condType \<Rightarrow>
         (case assert_slice (map_of condition ''values'') of
            None \<Rightarrow> conds
          | Some condValues \<Rightarrow>
              AList.update condType (Some (string_values condValues)) conds))"

definition convertPolicyItem :: "PolicyItem \<Rightarrow> RangerPolicyItemModel \<times> diag list" where
  "convertPolicyItem item =
    (let diags = [];
         permissions = map (\<lambda>access. StringValue (A_Type access))
                         (filter A_IsAllowed (elems (I_Accesses item)));
         policyItemModel =
           \<lparr>Users = Some (map StringValue (elems (I_Users item))),
            Groups = Some (map StringValue (elems (I_Groups item))),
            Roles = Some (map StringValue (elems (I_Roles item))),
            Permissions = Some permissions,
            DelegateAdmin = BoolValue (I_DelegateAdmin item),
            Conditions = foldl (\<lambda>conds condition. condition_step condition conds) []
                           (elems (I_Conditions item))\<rparr>
     in (policyItemModel, diags))"

text \<open>
  \<open>convertModelToPolicy\<close>. The loop over \<open>model.Resources\<close> assigns
  \<open>policy.Resources[resType]\<close> once per declared entry, in the declared order.
  \<open>ka i\<close> and \<open>kd i\<close> are the orders in which the conditions of the \<open>i\<close>-th allow
  item and of the \<open>i\<close>-th deny item are visited.
\<close>

definition resource_step ::
  "PolicyResources gomap \<Rightarrow> RangerPolicyResourcesModel \<Rightarrow> PolicyResources gomap" where
  "resource_step resources res =
    AList.update (ValueString (Type res))
      \<lparr>R_Values = Some (map ValueString (elems (Values res))),
       R_IsExclude = ValueBool (IsExclude res),
       R_IsRecursive = ValueBool (IsRecursive res)\<rparr> resources"

definition convert_items ::
  "(nat \<Rightarrow> string list) \<Rightarrow> RangerPolicyItemModel list \<Rightarrow> diag list
     \<Rightarrow> PolicyItem list \<times> diag list" where
  \<comment> \<open>the body of both item loops: convert, append the diagnostics, append the item\<close>
  "convert_items k items diags =
    foldl (\<lambda>(acc, diags) (i, item).
             let (policyItem, itemDiags) = convertPolicyItemModel (k i) item
             in (acc @ [policyItem], Append diags itemDiags))
      ([], diags) (enumerate 0 items)"

definition convertModelToPolicy ::
  "(nat \<Rightarrow> string list) \<Rightarrow> (nat \<Rightarrow> string list) \<Rightarrow> RangerPolicyResourceModel
     \<Rightarrow> Policy \<times> diag list" where
  "convertModelToPolicy ka kd model =
    (let diags = [];
         policy = \<lparr>P_ID = 0,
                   P_Name = ValueString (Name model),
                   P_Service = ValueString (Service model),
                   P_Description = [],
                   P_IsEnabled = ValueBool (IsEnabled model),
                   P_IsAuditEnabled = ValueBool (IsAuditEnabled model),
                   P_Resources = [],
                   P_PolicyItems = None,
                   P_DenyPolicyItems = None,
                   P_PolicyType = ValueInt64 (PolicyType model)\<rparr>;
         policy = (if \<not> IsNull (Description model)
                   then policy\<lparr>P_Description := ValueString (Description model)\<rparr>
                   else policy);
         policy = policy\<lparr>P_Resources := foldl resource_step [] (elems (Resources model))\<rparr>;
         (policy, diags) =
           (if len (PolicyItems model) > 0
            then let (items, diags) = convert_items ka (elems (PolicyItems model)) diags
                 in (policy\<lparr>P_PolicyItems := Some items\<rparr>, diags)
            else (policy, diags));
         (policy, diags) =
           (if len (DenyItems model) > 0
            then let (items, diags) = convert_items kd (elems (DenyItems model)) diags
                 in (policy\<lparr>P_DenyPolicyItems := Some items\<rparr>, diags)
            else (policy, diags))
     in (policy, diags))"

text \<open>
  \<open>convertPolicyToModel\<close>. \<open>ks\<close> is the order in which the \<open>range\<close> over
  \<open>policy.Resources\<close> visits the resource types.
\<close>

definition convert_wire_items ::
  "PolicyItem list \<Rightarrow> diag list \<Rightarrow> RangerPolicyItemModel list \<times> diag list" where
  "convert_wire_items items diags =
    foldl (\<lambda>(acc, diags) item.
             let (policyItem, itemDiags) = convertPolicyItem item
             in (acc @ [policyItem], Append diags itemDiags))
      ([], diags) items"

definition convertPolicyToModel ::
  "string list \<Rightarrow> Policy \<Rightarrow> RangerPolicyResourceModel \<times> diag list" where
  "convertPolicyToModel ks policy =
    (let diags = [];
         resources =
           map (\<lambda>(resType, resValue).
                  \<lparr>Type = StringValue resType,
                   Values = Some (map StringValue (elems (R_Values resValue))),
                   IsExclude = BoolValue (R_IsExclude resValue),
                   IsRecursive = BoolValue (R_IsRecursive resValue)\<rparr>)
             (range_map ks (P_Resources policy));
         (policyItems, diags) = convert_wire_items (elems (P_PolicyItems policy)) diags;
         (denyItems, diags) = convert_wire_items (elems (P_DenyPolicyItems policy)) diags
     in (\<lparr>ID = StringValue (Sprintf_d (sint (P_ID policy))),
          Name = StringValue (P_Name policy),
          Service = StringValue (P_Service policy),
          Description = StringValue (P_Description policy),
          IsEnabled = BoolValue (P_IsEnabled policy),
          IsAuditEnabled = BoolValue (P_IsAuditEnabled policy),
          Resources = Some resources,
          PolicyItems = Some policyItems,
          DenyItems = Some denyItems,
          PolicyType = Int64Value (P_PolicyType policy)\<rparr>, diags))"

section \<open>Scanning the policy id\<close>

text \<open>
  \<open>parseInt64\<close> is \<open>fmt.Sscanf(s, "%d", &i)\<close>. A string is its sequence of bytes.
  The scanner skips white space (an error at a newline), accepts one sign, then the
  longest run of decimal digits, which must not be empty, and hands the token to
  \<open>strconv.ParseInt(tok, 10, 64)\<close>, which rejects a value outside the 64-bit range.
  Whatever follows the digits is left unread and is no error.
\<close>

definition space_width :: "string \<Rightarrow> nat" where
  \<comment> \<open>the number of bytes of the white-space rune the input starts with, 0 if it starts with none;
      the runes are those of \<open>fmt\<close>'s \<open>isSpace\<close> other than the newline, in UTF-8\<close>
  "space_width s =
    (if take 1 s \<in> set [[CHR 0x09], [CHR 0x0B], [CHR 0x0C], [CHR 0x0D], [CHR 0x20]] then 1
     else if take 2 s \<in> set [[CHR 0xC2, CHR 0x85], [CHR 0xC2, CHR 0xA0]] then 2
     else if take 3 s \<in> set
          [[CHR 0xE1, CHR 0x9A, CHR 0x80],
           [CHR 0xE2, CHR 0x80, CHR 0x80], [CHR 0xE2, CHR 0x80, CHR 0x81],
           [CHR 0xE2, CHR 0x80, CHR 0x82], [CHR 0xE2, CHR 0x80, CHR 0x83],
           [CHR 0xE2, CHR 0x80, CHR 0x84], [CHR 0xE2, CHR 0x80, CHR 0x85],
           [CHR 0xE2, CHR 0x80, CHR 0x86], [CHR 0xE2, CHR 0x80, CHR 0x87],
           [CHR 0xE2, CHR 0x80, CHR 0x88], [CHR 0xE2, CHR 0x80, CHR 0x89],
           [CHR 0xE2, CHR 0x80, CHR 0x8A], [CHR 0xE2, CHR 0x80, CHR 0xA8],
           [CHR 0xE2, CHR 0x80, CHR 0xA9], [CHR 0xE2, CHR 0x80, CHR 0xAF],
           [CHR 0xE2, CHR 0x81, CHR 0x9F], [CHR 0xE3, CHR 0x80, CHR 0x80]] then 3
     else 0)"

fun SkipSpace :: "string \<Rightarrow> scan_error + string" where
  "SkipSpace [] = Inr []"
| "SkipSpace (c # cs) =
    (if c = CHR 0x0A then Inl UnexpectedNewline
     else if space_width (c # cs) = 0 then Inr (c # cs)
     else SkipSpace (drop (space_width (c # cs) - 1) cs))"

declare SkipSpace.simps [simp del]

definition ParseInt :: "string \<Rightarrow> go_error + int64" where
  \<comment> \<open>\<open>strconv.ParseInt(tok, 10, 64)\<close>\<close>
  "ParseInt tok =
    (let neg = (take 1 tok = ''-'');
         ds = (if take 1 tok = ''+'' \<or> take 1 tok = ''-'' then drop 1 tok else tok)
     in if ds = [] \<or> \<not> list_all (\<lambda>c. c \<in> set ''0123456789'') ds
        then Inl (ScanError (InvalidSyntax tok))
        else let n = foldl (\<lambda>acc c. 10 * acc + (of_char c - 48)) (0 :: nat) ds;
                 v = (if neg then - int n else int n)
             in if v < - (2 ^ 63) \<or> 2 ^ 63 - 1 < v
                then Inl (ScanError (OutOfRange tok))
                else Inr (word_of_int v))"

definition parseInt64 :: "string \<Rightarrow> go_error + int64" where
  "parseInt64 s =
    (case SkipSpace s of
       Inl e \<Rightarrow> Inl (ScanError e)
     | Inr input \<Rightarrow>
         if input = [] then Inl (ScanError EOF)
         else let sign = (if take 1 input = ''+'' \<or> take 1 input = ''-'' then take 1 input else []);
                  input = drop (length sign) input;
                  number = takeWhile (\<lambda>c. c \<in> set ''0123456789'') input
              in if input = [] then Inl (ScanError EOF)
                 else if number = [] then Inl (ScanError ExpectedInteger)
                 else ParseInt (sign @ number))"

text \<open>
  The ids that \<open>parseInt64\<close> accepts are described with \<open>space_runes\<close>, the
  encodings of the white-space runes that the scanner skips, and \<open>decimal\<close>, the number
  that a run of decimal digits denotes.
\<close>

definition space_runes :: "string list" where
  "space_runes =
     [[CHR 0x09], [CHR 0x0B], [CHR 0x0C], [CHR 0x0D], [CHR 0x20],
      [CHR 0xC2, CHR 0x85], [CHR 0xC2, CHR 0xA0],
      [CHR 0xE1, CHR 0x9A, CHR 0x80],
      [CHR 0xE2, CHR 0x80, CHR 0x80], [CHR 0xE2, CHR 0x80, CHR 0x81],
      [CHR 0xE2, CHR 0x80, CHR 0x82], [CHR 0xE2, CHR 0x80, CHR 0x83],
      [CHR 0xE2, CHR 0x80, CHR 0x84], [CHR 0xE2, CHR 0x80, CHR 0x85],
      [CHR 0xE2, CHR 0x80, CHR 0x86], [CHR 0xE2, CHR 0x80, CHR 0x87],
      [CHR 0xE2, CHR 0x80, CHR 0x88], [CHR 0xE2, CHR 0x80, CHR 0x89],
      [CHR 0xE2, CHR 0x80, CHR 0x8A], [CHR 0xE2, CHR 0x80, CHR 0xA8],
      [CHR 0xE2, CHR 0x80, CHR 0xA9], [CHR 0xE2, CHR 0x80, CHR 0xAF],
      [CHR 0xE2, CHR 0x81, CHR 0x9F], [CHR 0xE3, CHR 0x80, CHR 0x80]]"

definition decimal :: "string \<Rightarrow> nat" where
  "decimal ds = foldl (\<lambda>acc c. 10 * acc + (of_char c - 48)) 0 ds"

definition signed :: "string \<Rightarrow> string \<Rightarrow> int" where
  "signed sign ds = (if sign = ''-'' then - int (decimal ds) else int (decimal ds))"

definition is_decimal_integer :: "string \<Rightarrow> bool" where
  \<comment> \<open>a decimal integer, as claim C8 words it: an optional sign, then decimal digits, and
      nothing else\<close>
  "is_decimal_integer s =
    (let ds = (if take 1 s = ''+'' \<or> take 1 s = ''-'' then drop 1 s else s)
     in ds \<noteq> [] \<and> list_all (\<lambda>c. c \<in> set ''0123456789'') ds)"

section \<open>The remote service and the framework\<close>

text \<open>
  What lies outside the repository is taken as given: building a request, the round trip
  of the HTTP client, the JSON encoder and decoder, \<open>url.PathEscape\<close>, the framework's
  \<open>State.Set\<close> and the orders in which the runtime visits the maps of this run. A
  failure of one of them is \<open>Inl\<close> of the Go error.

  A request keeps the query of its URL as the list of decoded pairs, so that \<open>q.Add\<close>
  appends a pair. A header holds one list of values per name and \<open>Header.Set\<close> replaces
  it.
\<close>

record Request =
  Method :: string
  URL :: string
  Query :: "(string \<times> string) list"
  Header :: "string list gomap"
  ReqBody :: "string option"

record Response =
  StatusCode :: int
  Body :: string

record RangerClient =
  Endpoint :: string
  AuthHeader :: string

record platform =
  NewRequest :: "string \<Rightarrow> string \<Rightarrow> string option \<Rightarrow> go_error + Request"
  Do :: "Request \<Rightarrow> go_error + Response"
  Marshal :: "Policy \<Rightarrow> go_error + string"
  DecodePolicy :: "string \<Rightarrow> go_error + Policy"
  DecodePolicies :: "string \<Rightarrow> go_error + Policy list"
  PathEscape :: "string \<Rightarrow> string"
  StateSet :: "RangerPolicyResourceModel \<Rightarrow> diag list"
  RangeResources :: "string list"
  RangeAllow :: "nat \<Rightarrow> string list"
  RangeDeny :: "nat \<Rightarrow> string list"

text \<open>
  The response object of a resource operation: the diagnostics collected so far and the
  declarative state, \<open>None\<close> once the resource is removed. The framework hands Read and
  Update the prior state in it. \<open>State.Set\<close> stores the value unless its encoding
  reports an error.
\<close>

record Resp =
  Diagnostics :: "diag list"
  State :: "RangerPolicyResourceModel option"

definition Diagnostics_Append :: "diag list \<Rightarrow> Resp \<Rightarrow> Resp" where
  "Diagnostics_Append diags resp = resp\<lparr>Diagnostics := Append (Diagnostics resp) diags\<rparr>"

definition Diagnostics_AddError :: "string \<Rightarrow> message \<Rightarrow> Resp \<Rightarrow> Resp" where
  "Diagnostics_AddError summary detail resp =
     resp\<lparr>Diagnostics := AddError summary detail (Diagnostics resp)\<rparr>"

definition State_Set :: "platform \<Rightarrow> RangerPolicyResourceModel \<Rightarrow> Resp \<Rightarrow> Resp" where
  "State_Set pf model resp =
    (let diags = StateSet pf model;
         resp = (if HasError diags then resp else resp\<lparr>State := Some model\<rparr>)
     in Diagnostics_Append diags resp)"

definition RemoveResource :: "Resp \<Rightarrow> Resp" where
  "RemoveResource resp = resp\<lparr>State := None\<rparr>"

definition Header_Set :: "string \<Rightarrow> string \<Rightarrow> Request \<Rightarrow> Request" where
  "Header_Set k v request = request\<lparr>Header := AList.update k [v] (Header request)\<rparr>"

abbreviation StatusOK :: int where "StatusOK \<equiv> 200"
abbreviation StatusCreated :: int where "StatusCreated \<equiv> 201"
abbreviation StatusNotFound :: int where "StatusNotFound \<equiv> 404"

section \<open>The reconciler\<close>

text \<open>
  Each operation takes the outcome of \<open>req.Plan.Get\<close> (or \<open>req.State.Get\<close>): the
  diagnostics of the decoding and the decoded model. It returns the response object and
  the requests it has handed to the HTTP client, in order. Logging is left out.
\<close>

definition Create ::
  "platform \<Rightarrow> RangerClient \<Rightarrow> diag list \<times> RangerPolicyResourceModel \<Rightarrow> Resp
     \<Rightarrow> Resp \<times> Request list" where
  "Create pf client planGet resp =
    (let (diags, plan) = planGet;
         resp = Diagnostics_Append diags resp
     in if HasError (Diagnostics resp) then (resp, [])
        else
          let (policy, diags) = convertModelToPolicy (RangeAllow pf) (RangeDeny pf) plan;
              resp = Diagnostics_Append diags resp
          in if HasError (Diagnostics resp) then (resp, [])
             else
               (case Marshal pf policy of
                  Inl err \<Rightarrow>
                    (Diagnostics_AddError ''Error Creating Ranger Policy''
                       (Sprintf ''Could not marshal policy JSON: %s'' [OpErr err]) resp, [])
                | Inr policyJSON \<Rightarrow>
                    (case NewRequest pf ''POST''
                            (Endpoint client @ ''/service/public/v2/api/policy'')
                            (Some policyJSON) of
                       Inl err \<Rightarrow>
                         (Diagnostics_AddError ''Error Creating Ranger Policy''
                            (Sprintf ''Could not create request: %s'' [OpErr err]) resp, [])
                     | Inr request \<Rightarrow>
                         let request = Header_Set ''Authorization'' (AuthHeader client) request;
                             request = Header_Set ''Content-Type'' ''application/json'' request;
                             request = Header_Set ''Accept'' ''application/json'' request
                         in (case Do pf request of
                               Inl err \<Rightarrow>
                                 (Diagnostics_AddError ''Error Creating Ranger Policy''
                                    (Sprintf ''Could not execute API request: %s'' [OpErr err])
                                    resp, [request])
                             | Inr response \<Rightarrow>
                                 if StatusCode response \<noteq> StatusOK
                                    \<and> StatusCode response \<noteq> StatusCreated
                                 then (Diagnostics_AddError ''Error Creating Ranger Policy''
                                         (Sprintf ''API returned unexpected status code: %d''
                                            [OpInt (StatusCode response)]) resp, [request])
                                 else
                                   (case DecodePolicy pf (Body response) of
                                      Inl err \<Rightarrow>
                                        (Diagnostics_AddError ''Error Creating Ranger Policy''
                                           (Sprintf ''Could not decode API response: %s''
                                              [OpErr err]) resp, [request])
                                    | Inr createdPolicy \<Rightarrow>
                                        let plan = plan\<lparr>ID := StringValue
                                                     (Sprintf_d (sint (P_ID createdPolicy)))\<rparr>
                                        in (State_Set pf plan resp, [request]))))))"

definition Read ::
  "platform \<Rightarrow> RangerClient \<Rightarrow> diag list \<times> RangerPolicyResourceModel \<Rightarrow> Resp
     \<Rightarrow> Resp \<times> Request list" where
  "Read pf client stateGet resp =
    (let (diags, state) = stateGet;
         resp = Diagnostics_Append diags resp
     in if HasError (Diagnostics resp) then (resp, [])
        else if IsNull (ID state) then (RemoveResource resp, [])
        else
          (case NewRequest pf ''GET''
                  (Endpoint client @ ''/service/public/v2/api/policy/'' @ ValueString (ID state))
                  None of
             Inl err \<Rightarrow>
               (Diagnostics_AddError ''Error Reading Ranger Policy''
                  (Sprintf ''Could not create request: %s'' [OpErr err]) resp, [])
           | Inr request \<Rightarrow>
               let request = Header_Set ''Authorization'' (AuthHeader client) request;
                   request = Header_Set ''Accept'' ''application/json'' request
               in (case Do pf request of
                     Inl err \<Rightarrow>
                       (Diagnostics_AddError ''Error Reading Ranger Policy''
                          (Sprintf ''Could not execute API request: %s'' [OpErr err])
                          resp, [request])
                   | Inr response \<Rightarrow>
                       if StatusCode response = StatusNotFound
                       then (RemoveResource resp, [request])
                       else if StatusCode response \<noteq> StatusOK
                       then (Diagnostics_AddError ''Error Reading Ranger Policy''
                               (Sprintf ''API returned unexpected status code: %d''
                                  [OpInt (StatusCode response)]) resp, [request])
                       else
                         (case DecodePolicy pf (Body response) of
                            Inl err \<Rightarrow>
                              (Diagnostics_AddError ''Error Reading Ranger Policy''
                                 (Sprintf ''Could not decode API response: %s'' [OpErr err])
                                 resp, [request])
                          | Inr policy \<Rightarrow>
                              let (model, diags) =
                                    convertPolicyToModel (RangeResources pf) policy;
                                  resp = Diagnostics_Append diags resp
                              in if HasError (Diagnostics resp) then (resp, [request])
                                 else (State_Set pf model resp, [request])))))"

definition Update ::
  "platform \<Rightarrow> RangerClient \<Rightarrow> diag list \<times> RangerPolicyResourceModel \<Rightarrow> Resp
     \<Rightarrow> Resp \<times> Request list" where
  "Update pf client planGet resp =
    (let (diags, plan) = planGet;
         resp = Diagnostics_Append diags resp
     in if HasError (Diagnostics resp) then (resp, [])
        else
          let (policy, diags) = convertModelToPolicy (RangeAllow pf) (RangeDeny pf) plan;
              resp = Diagnostics_Append diags resp
          in if HasError (Diagnostics resp) then (resp, [])
             else
               let policyID = ValueString (ID plan)
               in (case parseInt64 policyID of
                     Inl err \<Rightarrow>
                       (Diagnostics_AddError ''Error Updating Ranger Policy''
                          (Sprintf ''Could not parse policy ID: %s'' [OpErr err]) resp, [])
                   | Inr id' \<Rightarrow>
                       let policy = policy\<lparr>P_ID := id'\<rparr>
                       in (case Marshal pf policy of
                             Inl err \<Rightarrow>
                               (Diagnostics_AddError ''Error Updating Ranger Policy''
                                  (Sprintf ''Could not marshal policy JSON: %s'' [OpErr err])
                                  resp, [])
                           | Inr policyJSON \<Rightarrow>
                               (case NewRequest pf ''PUT''
                                       (Endpoint client @ ''/service/public/v2/api/policy/''
                                          @ policyID)
                                       (Some policyJSON) of
                                  Inl err \<Rightarrow>
                                    (Diagnostics_AddError ''Error Updating Ranger Policy''
                                       (Sprintf ''Could not create request: %s'' [OpErr err])
                                       resp, [])
                                | Inr request \<Rightarrow>
                                    let request = Header_Set ''Authorization''
                                                    (AuthHeader client) request;
                                        request = Header_Set ''Content-Type''
                                                    ''application/json'' request;
                                        request = Header_Set ''Accept''
                                                    ''application/json'' request
                                    in (case Do pf request of
                                          Inl err \<Rightarrow>
                                            (Diagnostics_AddError ''Error Updating Ranger Policy''
                                               (Sprintf ''Could not execute API request: %s''
                                                  [OpErr err]) resp, [request])
                                        | Inr response \<Rightarrow>
                                            if StatusCode response \<noteq> StatusOK
                                            then (Diagnostics_AddError
                                                    ''Error Updating Ranger Policy''
                                                    (Sprintf
                                                       ''API returned unexpected status code: %d''
                                                       [OpInt (StatusCode response)])
                                                    resp, [request])
                                            else
                                              (case DecodePolicy pf (Body response) of
                                                 Inl err \<Rightarrow>
                                                   (Diagnostics_AddError
                                                      ''Error Updating Ranger Policy''
                                                      (Sprintf
                                                         ''Could not decode API response: %s''
                                                         [OpErr err]) resp, [request])
                                               | Inr updatedPolicy \<Rightarrow>
                                                   (State_Set pf plan resp, [request])))))))"

section \<open>Lookup by service and name\<close>

definition Policy_zero :: Policy where
  \<comment> \<open>\<open>Policy{}\<close>\<close>
  "Policy_zero = \<lparr>P_ID = 0, P_Name = [], P_Service = [], P_Description = [],
                   P_IsEnabled = False, P_IsAuditEnabled = False, P_Resources = [],
                   P_PolicyItems = None, P_DenyPolicyItems = None, P_PolicyType = 0\<rparr>"

definition getPolicyByServiceAndName ::
  "platform \<Rightarrow> RangerClient \<Rightarrow> string \<Rightarrow> string \<Rightarrow> (Policy \<times> diag list) \<times> Request list" where
  "getPolicyByServiceAndName pf client service name =
    (let diags = []
     in case NewRequest pf ''GET''
               (Endpoint client @ ''/service/public/v2/api/service/'' @ PathEscape pf service
                  @ ''/policy'')
               None of
          Inl err \<Rightarrow>
            ((Policy_zero,
              AddError ''Error Reading Ranger Policy''
                (Sprintf ''Could not create request: %s'' [OpErr err]) diags), [])
        | Inr request \<Rightarrow>
            let request = request\<lparr>Query := Query request @ [(''policyName'', name)]\<rparr>;
                request = Header_Set ''Authorization'' (AuthHeader client) request;
                request = Header_Set ''Accept'' ''application/json'' request
            in (case Do pf request of
                  Inl err \<Rightarrow>
                    ((Policy_zero,
                      AddError ''Error Reading Ranger Policy''
                        (Sprintf ''Could not execute API request: %s'' [OpErr err]) diags),
                     [request])
                | Inr response \<Rightarrow>
                    if StatusCode response \<noteq> StatusOK
                    then ((Policy_zero,
                           AddError ''Error Reading Ranger Policy''
                             (Sprintf ''API returned unexpected status code: %d''
                                [OpInt (StatusCode response)]) diags), [request])
                    else
                      (case DecodePolicies pf (Body response) of
                         Inl err \<Rightarrow>
                           ((Policy_zero,
                             AddError ''Error Reading Ranger Policy''
                               (Sprintf ''Could not decode API response: %s'' [OpErr err])
                               diags), [request])
                       | Inr policies \<Rightarrow>
                           (case find (\<lambda>policy. P_Name policy = name) policies of
                              Some policy \<Rightarrow> ((policy, diags), [request])
                            | None \<Rightarrow>
                                ((Policy_zero,
                                  AddError ''Ranger Policy Not Found''
                                    (Sprintf
                                       (''No policy found with service '' @ [CHR 0x27] @ ''%s''
                                          @ [CHR 0x27] @ '' and name '' @ [CHR 0x27] @ ''%s''
                                          @ [CHR 0x27])
                                       [OpStr service, OpStr name]) diags), [request])))))"

section \<open>Valid declarative policies\<close>






section \<open>Example values\<close>

definition no_order :: "nat \<Rightarrow> string list" where
  \<comment> \<open>the visiting order of the conditions of items that declare none\<close>
  "no_order i = []"


definition empty_item :: RangerPolicyItemModel where
  "empty_item = \<lparr>Users = Some [], Groups = None, Roles = Some [], Permissions = None,
                  DelegateAdmin = BoolValue False, Conditions = []\<rparr>"

definition finance_item :: RangerPolicyItemModel where
  "finance_item = \<lparr>Users = Some [StringValue ''alice''],
                    Groups = Some [StringValue ''finance'', StringValue ''finance_analysts''],
                    Roles = Some [StringValue ''analyst''],
                    Permissions = Some [StringValue ''read'', StringValue ''write''],
                    DelegateAdmin = BoolValue False, Conditions = []\<rparr>"

definition conditional_item :: RangerPolicyItemModel where
  "conditional_item = \<lparr>Users = Some [StringValue ''alice''], Groups = None, Roles = None,
                        Permissions = Some [StringValue ''read''],
                        DelegateAdmin = BoolValue False,
                        Conditions = [(''ip-range'', Some [StringValue ''10.0.0.0/8''])]\<rparr>"

definition path_a :: RangerPolicyResourcesModel where
  "path_a = \<lparr>Type = StringValue ''path'', Values = Some [StringValue ''/data/a''],
              IsExclude = BoolValue False, IsRecursive = BoolValue True\<rparr>"

definition path_b :: RangerPolicyResourcesModel where
  "path_b = \<lparr>Type = StringValue ''path'', Values = Some [StringValue ''/data/b''],
              IsExclude = BoolValue False, IsRecursive = BoolValue False\<rparr>"

definition database_sales :: RangerPolicyResourcesModel where
  "database_sales = \<lparr>Type = StringValue ''database'', Values = Some [StringValue ''sales''],
                      IsExclude = BoolValue False, IsRecursive = BoolValue False\<rparr>"

definition bare_policy :: RangerPolicyResourceModel where
  \<comment> \<open>no allow item, no deny block\<close>
  "bare_policy = \<lparr>ID = Null, Name = StringValue ''bare'', Service = StringValue ''hdfs'',
                   Description = Null, IsEnabled = BoolValue True,
                   IsAuditEnabled = BoolValue True, Resources = Some [path_a],
                   PolicyItems = Some [], DenyItems = None, PolicyType = Int64Value 0\<rparr>"

definition finance_policy :: RangerPolicyResourceModel where
  "finance_policy = \<lparr>ID = Null, Name = StringValue ''finance_reports_access'',
                      Service = StringValue ''hive'',
                      Description = StringValue ''finance reports'',
                      IsEnabled = BoolValue True, IsAuditEnabled = BoolValue True,
                      Resources = Some [database_sales, path_a],
                      PolicyItems = Some [finance_item], DenyItems = None,
                      PolicyType = Int64Value 0\<rparr>"


definition duplicate_policy :: RangerPolicyResourceModel where
  \<comment> \<open>the resource type \<open>path\<close> declared twice\<close>
  "duplicate_policy = \<lparr>ID = Null, Name = StringValue ''twice'', Service = StringValue ''hdfs'',
                        Description = Null, IsEnabled = BoolValue True,
                        IsAuditEnabled = BoolValue True, Resources = Some [path_a, path_b],
                        PolicyItems = Some [finance_item], DenyItems = None,
                        PolicyType = Int64Value 0\<rparr>"

definition write_read_item :: PolicyItem where
  "write_read_item = \<lparr>I_Users = None, I_Groups = None, I_Roles = None,
                       I_Accesses = Some [\<lparr>A_Type = ''write'', A_IsAllowed = True\<rparr>,
                                          \<lparr>A_Type = ''read'', A_IsAllowed = True\<rparr>],
                       I_DelegateAdmin = False, I_Conditions = None\<rparr>"

definition read_write_item :: PolicyItem where
  "read_write_item = \<lparr>I_Users = None, I_Groups = None, I_Roles = None,
                       I_Accesses = Some [\<lparr>A_Type = ''read'', A_IsAllowed = True\<rparr>,
                                          \<lparr>A_Type = ''write'', A_IsAllowed = True\<rparr>],
                       I_DelegateAdmin = False, I_Conditions = None\<rparr>"

definition refused_item :: PolicyItem where
  \<comment> \<open>an access the remote service marks as not allowed\<close>
  "refused_item = \<lparr>I_Users = Some [''bob''], I_Groups = None, I_Roles = None,
                    I_Accesses = Some [\<lparr>A_Type = ''read'', A_IsAllowed = True\<rparr>,
                                       \<lparr>A_Type = ''write'', A_IsAllowed = False\<rparr>],
                    I_DelegateAdmin = False, I_Conditions = None\<rparr>"

definition mixed_values_item :: PolicyItem where
  \<comment> \<open>one condition whose values hold a string and a number\<close>
  "mixed_values_item = \<lparr>I_Users = None, I_Groups = None, I_Roles = None, I_Accesses = None,
                         I_DelegateAdmin = False,
                         I_Conditions = Some [[(''type'', IString ''ip-range''),
                                               (''values'', ISlice [IString ''10.0.0.0/8'',
                                                                    IFloat64 5])]]\<rparr>"

definition malformed_item :: PolicyItem where
  \<comment> \<open>values that are no list, a type that is no string, and a well-formed entry\<close>
  "malformed_item = \<lparr>I_Users = None, I_Groups = None, I_Roles = None, I_Accesses = None,
                      I_DelegateAdmin = False,
                      I_Conditions = Some [[(''type'', IString ''expiry''),
                                            (''values'', IString ''2030-01-01'')],
                                           [(''type'', IFloat64 1), (''values'', ISlice [])],
                                           [(''type'', IString ''ip-range''),
                                            (''values'', ISlice [IString ''10.0.0.0/8''])]]\<rparr>"

definition repeated_item :: PolicyItem where
  \<comment> \<open>two conditions of the same type, the first with a value that is no string\<close>
  "repeated_item = \<lparr>I_Users = None, I_Groups = None, I_Roles = None, I_Accesses = None,
                     I_DelegateAdmin = False,
                     I_Conditions = Some [[(''type'', IString ''ip-range''),
                                           (''values'', ISlice [IString ''10.0.0.0/8'',
                                                                IFloat64 5])],
                                          [(''type'', IString ''ip-range''),
                                           (''values'', ISlice [IString ''192.168.0.0/16''])]]\<rparr>"

definition client0 :: RangerClient where
  "client0 = \<lparr>Endpoint = ''http://ranger.example.com:6080'',
               AuthHeader = ''Basic YWRtaW46YWRtaW4=''\<rparr>"

definition remote :: "int \<Rightarrow> Policy \<Rightarrow> Policy list \<Rightarrow> platform" where
  \<comment> \<open>a service that answers every request with the status \<open>status\<close> and a body that
      decodes to \<open>policy\<close>, or to the list \<open>policies\<close>\<close>
  "remote status policy policies =
    \<lparr>NewRequest = (\<lambda>method url body.
                     Inr \<lparr>Method = method, URL = url, Query = [], Header = [],
                          ReqBody = body\<rparr>),
     Do = (\<lambda>request. Inr \<lparr>StatusCode = status, Body = ''{}''\<rparr>),
     Marshal = (\<lambda>policy. Inr ''{}''),
     DecodePolicy = (\<lambda>body. Inr policy),
     DecodePolicies = (\<lambda>body. Inr policies),
     PathEscape = (\<lambda>s. s),
     StateSet = (\<lambda>model. []),
     RangeResources = map fst (P_Resources policy),
     RangeAllow = no_order,
     RangeDeny = no_order\<rparr>"

definition named :: "string \<Rightarrow> int64 \<Rightarrow> Policy" where
  "named name n = Policy_zero\<lparr>P_ID := n, P_Name := name, P_Service := ''hive''\<rparr>"

definition stored_policy :: RangerPolicyResourceModel where
  \<comment> \<open>the state of a policy created as number 42\<close>
  "stored_policy = finance_policy\<lparr>ID := StringValue ''42''\<rparr>"

definition unparseable_policy :: RangerPolicyResourceModel where
  "unparseable_policy = finance_policy\<lparr>ID := StringValue ''abc''\<rparr>"

definition trailing_policy :: RangerPolicyResourceModel where
  \<comment> \<open>an id that starts with a number and goes on\<close>
  "trailing_policy = finance_policy\<lparr>ID := StringValue ''42abc''\<rparr>"

definition fresh :: Resp where
  \<comment> \<open>the response object of Create: no diagnostics, no state\<close>
  "fresh = \<lparr>Diagnostics = [], State = None\<rparr>"

definition prior :: Resp where
  \<comment> \<open>the response object of Read and Update: no diagnostics, the prior state\<close>
  "prior = \<lparr>Diagnostics = [], State = Some stored_policy\<rparr>"

definition echoed_policy :: Policy where
  \<comment> \<open>what the service answers to the creation of \<open>finance_policy\<close>: the id it issued,
      and a name and a description it has rewritten\<close>
  "echoed_policy = Policy_zero\<lparr>P_ID := 42, P_Name := ''FINANCE_REPORTS_ACCESS'',
                     P_Service := ''hive'', P_Description := ''normalised by the service'',
                     P_IsEnabled := False\<rparr>"

section \<open>Properties of the translator\<close>

subsection \<open>The loops, in closed form\<close>

lemma snd_convertPolicyItemModel: "snd (convertPolicyItemModel ks itemModel) = []"
  by (simp add: convertPolicyItemModel_def Let_def)

lemma snd_convertPolicyItem: "snd (convertPolicyItem item) = []"
  by (simp add: convertPolicyItem_def Let_def)

lemma convert_items_loop:
  "foldl (\<lambda>(acc, diags) (i, item).
             let (policyItem, itemDiags) = convertPolicyItemModel (k i) item
             in (acc @ [policyItem], Append diags itemDiags)) (acc, diags) xs
   = (acc @ map (\<lambda>(i, item). fst (convertPolicyItemModel (k i) item)) xs, diags)"
proof (induction xs arbitrary: acc)
  case Nil
  show ?case by simp
next
  case (Cons x xs)
  obtain i item where x: "x = (i, item)"
    by (cases x)
  obtain p d where c: "convertPolicyItemModel (k i) item = (p, d)"
    by (cases "convertPolicyItemModel (k i) item")
  from snd_convertPolicyItemModel[of "k i" item] c have d: "d = []"
    by simp
  show ?case
    using Cons.IH[of "acc @ [p]"] by (simp add: x c d)
qed

lemma convert_items_eq:
  "convert_items k items diags =
     (map (\<lambda>(i, item). fst (convertPolicyItemModel (k i) item)) (enumerate 0 items), diags)"
  using convert_items_loop[of k "[]" diags "enumerate 0 items"]
  by (simp add: convert_items_def Let_def)

lemma convert_wire_items_loop:
  "foldl (\<lambda>(acc, diags) item.
             let (policyItem, itemDiags) = convertPolicyItem item
             in (acc @ [policyItem], Append diags itemDiags)) (acc, diags) xs
   = (acc @ map (\<lambda>item. fst (convertPolicyItem item)) xs, diags)"
proof (induction xs arbitrary: acc)
  case Nil
  show ?case by simp
next
  case (Cons x xs)
  obtain p d where c: "convertPolicyItem x = (p, d)"
    by (cases "convertPolicyItem x")
  from snd_convertPolicyItem[of x] c have d: "d = []"
    by simp
  show ?case
    using Cons.IH[of "acc @ [p]"] by (simp add: c d)
qed

lemma convert_wire_items_eq:
  "convert_wire_items items diags = (map (\<lambda>item. fst (convertPolicyItem item)) items, diags)"
  using convert_wire_items_loop[of "[]" diags items]
  by (simp add: convert_wire_items_def Let_def)

lemma snd_convertModelToPolicy: "snd (convertModelToPolicy ka kd model) = []"
  by (simp add: convertModelToPolicy_def Let_def convert_items_eq)

lemma snd_convertPolicyToModel: "snd (convertPolicyToModel ks policy) = []"
  by (simp add: convertPolicyToModel_def Let_def convert_wire_items_eq)

lemma elems_Permissions_convertPolicyItem:
  "elems (Permissions (fst (convertPolicyItem item))) =
     map (\<lambda>access. StringValue (A_Type access)) (filter A_IsAllowed (elems (I_Accesses item)))"
  by (simp add: convertPolicyItem_def Let_def elems_def)
subsection \<open>The maps the loops build\<close>

lemma map_of_resource_step:
  "map_of (resource_step m res) t =
     (if ValueString (Type res) = t
      then Some \<lparr>R_Values = Some (map ValueString (elems (Values res))),
                  R_IsExclude = ValueBool (IsExclude res),
                  R_IsRecursive = ValueBool (IsRecursive res)\<rparr>
      else map_of m t)"
  by (simp add: resource_step_def update_conv')

lemma map_of_resource_steps:
  "map_of (foldl resource_step m rs) t =
     (case find (\<lambda>res. ValueString (Type res) = t) (rev rs) of
        Some res \<Rightarrow> Some \<lparr>R_Values = Some (map ValueString (elems (Values res))),
                          R_IsExclude = ValueBool (IsExclude res),
                          R_IsRecursive = ValueBool (IsRecursive res)\<rparr>
      | None \<Rightarrow> map_of m t)"
proof (induction rs arbitrary: m rule: rev_induct)
  case Nil
  show ?case by simp
next
  case (snoc r rs)
  show ?case by (simp add: snoc.IH map_of_resource_step)
qed

lemma distinct_resource_steps:
  "distinct (map fst m) \<Longrightarrow> distinct (map fst (foldl resource_step m rs))"
  by (induction rs arbitrary: m) (simp_all add: resource_step_def distinct_update)


lemma P_Resources_convertModelToPolicy:
  "P_Resources (fst (convertModelToPolicy ka kd model))
     = foldl resource_step [] (elems (Resources model))"
  by (simp add: convertModelToPolicy_def Let_def split: prod.splits)

lemma find_Some_member: "find P xs = Some x \<Longrightarrow> x \<in> set xs \<and> P x"
  by (induction xs) (auto split: if_splits)

lemma find_rev_split:
  "find P (rev xs) = Some x \<Longrightarrow> \<exists>ys zs. xs = ys @ x # zs \<and> P x \<and> (\<forall>z \<in> set zs. \<not> P z)"
proof (induction xs rule: rev_induct)
  case Nil
  then show ?case by simp
next
  case (snoc a xs)
  show ?case
  proof (cases "P a")
    case True
    with snoc.prems have "x = a"
      by simp
    with True show ?thesis
      by (intro exI[of _ xs] exI[of _ "[]"]) simp
  next
    case False
    with snoc.prems have "find P (rev xs) = Some x"
      by simp
    from snoc.IH[OF this] obtain ys zs
      where "xs = ys @ x # zs" "P x" "\<forall>z \<in> set zs. \<not> P z"
      by blast
    with False show ?thesis
      by (intro exI[of _ ys] exI[of _ "zs @ [a]"]) simp
  qed
qed

lemma find_after_none: "find P xs = None \<Longrightarrow> find P (xs @ ys) = find P ys"
  by (induction xs) (auto split: if_splits)

lemma find_rev_last:
  assumes "P x" and "\<forall>z \<in> set zs. \<not> P z"
  shows "find P (rev (ys @ x # zs)) = Some x"
proof -
  from assms(2) have "find P (rev zs) = None"
    by (simp add: find_None_iff)
  then have "find P (rev zs @ x # rev ys) = find P (x # rev ys)"
    by (rule find_after_none)
  with assms(1) show ?thesis
    by simp
qed

lemma map_of_condition_step:
  "map_of (condition_step c m) t =
     (if assert_string (map_of c ''type'') = Some t \<and> assert_slice (map_of c ''values'') \<noteq> None
      then Some (Some (string_values (the (assert_slice (map_of c ''values'')))))
      else map_of m t)"
  by (cases "assert_string (map_of c ''type'')"; cases "assert_slice (map_of c ''values'')")
     (simp_all add: condition_step_def update_conv')

lemma map_of_condition_steps:
  "map_of (foldl (\<lambda>conds condition. condition_step condition conds) m cs) t =
     (case find (\<lambda>c. assert_string (map_of c ''type'') = Some t
                      \<and> assert_slice (map_of c ''values'') \<noteq> None) (rev cs) of
        Some c \<Rightarrow> Some (Some (string_values (the (assert_slice (map_of c ''values'')))))
      | None \<Rightarrow> map_of m t)"
proof (induction cs arbitrary: m rule: rev_induct)
  case Nil
  show ?case by simp
next
  case (snoc c cs)
  show ?case
    by (auto simp add: snoc.IH map_of_condition_step)
qed

lemma Conditions_convertPolicyItem:
  "Conditions (fst (convertPolicyItem item))
     = foldl (\<lambda>conds condition. condition_step condition conds) [] (elems (I_Conditions item))"
  by (simp add: convertPolicyItem_def Let_def)

lemma string_values_eq: "string_values vs = [StringValue s. IString s \<leftarrow> vs]"
  by (induction vs rule: string_values.induct) simp_all
subsection \<open>The translator reports nothing\<close>

text \<open>
  Claim C9. Model translation never fails in either direction: whatever the declarative
  model, \<open>convertModelToPolicy\<close> and \<open>convertPolicyItemModel\<close> return an empty
  diagnostics collection, and whatever the wire policy, so do \<open>convertPolicyToModel\<close>
  and \<open>convertPolicyItem\<close>; this holds for every order in which the maps are visited.
\<close>

theorem translation_never_fails:
  "snd (convertModelToPolicy ka kd model) = []
   \<and> snd (convertPolicyItemModel ks itemModel) = []
   \<and> snd (convertPolicyToModel rs policy) = []
   \<and> snd (convertPolicyItem item) = []"
proof (intro conjI)
  show "snd (convertModelToPolicy ka kd model) = []"
    by (rule snd_convertModelToPolicy)
  show "snd (convertPolicyItemModel ks itemModel) = []"
    by (rule snd_convertPolicyItemModel)
  show "snd (convertPolicyToModel rs policy) = []"
    by (rule snd_convertPolicyToModel)
  show "snd (convertPolicyItem item) = []"
    by (rule snd_convertPolicyItem)
qed

theorem translation_never_fails_witness:
  "snd (convertModelToPolicy no_order no_order duplicate_policy) = []
   \<and> snd (convertPolicyItemModel [''ip-range''] conditional_item) = []
   \<and> snd (convertPolicyToModel [''path'']
             (fst (convertModelToPolicy no_order no_order duplicate_policy))) = []
   \<and> snd (convertPolicyItem malformed_item) = []"
  by (rule translation_never_fails)
subsection \<open>Empty lists are left out of the wire policy\<close>

text \<open>
  Claim C10. Declarative-to-wire translation omits an empty list instead of emitting
  it: a rule item whose declared users, groups, roles or permissions are empty has the
  wire field (for the permissions, \<open>accesses\<close>) \<open>nil\<close>, and a policy without allow
  items or without deny items has \<open>policyItems\<close> or \<open>denyPolicyItems\<close> \<open>nil\<close>; a
  list that is not empty is emitted element by element. The other direction differs:
  every list of the declarative model it returns is made, never \<open>nil\<close>.
\<close>

theorem empty_lists_omitted:
  "(len (Users itemModel) = 0 \<longrightarrow> I_Users (fst (convertPolicyItemModel ks itemModel)) = None)
   \<and> (len (Groups itemModel) = 0 \<longrightarrow> I_Groups (fst (convertPolicyItemModel ks itemModel)) = None)
   \<and> (len (Roles itemModel) = 0 \<longrightarrow> I_Roles (fst (convertPolicyItemModel ks itemModel)) = None)
   \<and> (len (Permissions itemModel) = 0 \<longrightarrow>
        I_Accesses (fst (convertPolicyItemModel ks itemModel)) = None)
   \<and> (0 < len (Users itemModel) \<longrightarrow>
        I_Users (fst (convertPolicyItemModel ks itemModel))
          = Some (map ValueString (elems (Users itemModel))))
   \<and> (0 < len (Groups itemModel) \<longrightarrow>
        I_Groups (fst (convertPolicyItemModel ks itemModel))
          = Some (map ValueString (elems (Groups itemModel))))
   \<and> (0 < len (Roles itemModel) \<longrightarrow>
        I_Roles (fst (convertPolicyItemModel ks itemModel))
          = Some (map ValueString (elems (Roles itemModel))))
   \<and> (0 < len (Permissions itemModel) \<longrightarrow>
        I_Accesses (fst (convertPolicyItemModel ks itemModel))
          = Some (map (\<lambda>perm. \<lparr>A_Type = ValueString perm, A_IsAllowed = True\<rparr>)
                    (elems (Permissions itemModel))))
   \<and> (len (PolicyItems model) = 0 \<longrightarrow>
        P_PolicyItems (fst (convertModelToPolicy ka kd model)) = None)
   \<and> (len (DenyItems model) = 0 \<longrightarrow>
        P_DenyPolicyItems (fst (convertModelToPolicy ka kd model)) = None)
   \<and> (0 < len (PolicyItems model) \<longrightarrow>
        len (P_PolicyItems (fst (convertModelToPolicy ka kd model))) = len (PolicyItems model)
        \<and> P_PolicyItems (fst (convertModelToPolicy ka kd model)) \<noteq> None)
   \<and> (0 < len (DenyItems model) \<longrightarrow>
        len (P_DenyPolicyItems (fst (convertModelToPolicy ka kd model))) = len (DenyItems model)
        \<and> P_DenyPolicyItems (fst (convertModelToPolicy ka kd model)) \<noteq> None)
   \<and> Users (fst (convertPolicyItem item)) \<noteq> None
   \<and> Groups (fst (convertPolicyItem item)) \<noteq> None
   \<and> Roles (fst (convertPolicyItem item)) \<noteq> None
   \<and> Permissions (fst (convertPolicyItem item)) \<noteq> None
   \<and> Resources (fst (convertPolicyToModel rs policy)) \<noteq> None
   \<and> PolicyItems (fst (convertPolicyToModel rs policy)) \<noteq> None
   \<and> DenyItems (fst (convertPolicyToModel rs policy)) \<noteq> None"
proof -
  have item: "(len (Users itemModel) = 0 \<longrightarrow> I_Users (fst (convertPolicyItemModel ks itemModel)) = None)
   \<and> (len (Groups itemModel) = 0 \<longrightarrow> I_Groups (fst (convertPolicyItemModel ks itemModel)) = None)
   \<and> (len (Roles itemModel) = 0 \<longrightarrow> I_Roles (fst (convertPolicyItemModel ks itemModel)) = None)
   \<and> (len (Permissions itemModel) = 0 \<longrightarrow>
        I_Accesses (fst (convertPolicyItemModel ks itemModel)) = None)"
    by (simp add: convertPolicyItemModel_def Let_def)
  have item': "(0 < len (Users itemModel) \<longrightarrow>
        I_Users (fst (convertPolicyItemModel ks itemModel))
          = Some (map ValueString (elems (Users itemModel))))
   \<and> (0 < len (Groups itemModel) \<longrightarrow>
        I_Groups (fst (convertPolicyItemModel ks itemModel))
          = Some (map ValueString (elems (Groups itemModel))))
   \<and> (0 < len (Roles itemModel) \<longrightarrow>
        I_Roles (fst (convertPolicyItemModel ks itemModel))
          = Some (map ValueString (elems (Roles itemModel))))
   \<and> (0 < len (Permissions itemModel) \<longrightarrow>
        I_Accesses (fst (convertPolicyItemModel ks itemModel))
          = Some (map (\<lambda>perm. \<lparr>A_Type = ValueString perm, A_IsAllowed = True\<rparr>)
                    (elems (Permissions itemModel))))"
    by (simp add: convertPolicyItemModel_def Let_def)
  have allow: "P_PolicyItems (fst (convertModelToPolicy ka kd model)) =
      (if 0 < len (PolicyItems model)
       then Some (map (\<lambda>(i, item). fst (convertPolicyItemModel (ka i) item))
                    (enumerate 0 (elems (PolicyItems model))))
       else None)"
    by (simp add: convertModelToPolicy_def Let_def convert_items_eq)
  have deny: "P_DenyPolicyItems (fst (convertModelToPolicy ka kd model)) =
      (if 0 < len (DenyItems model)
       then Some (map (\<lambda>(i, item). fst (convertPolicyItemModel (kd i) item))
                    (enumerate 0 (elems (DenyItems model))))
       else None)"
    by (simp add: convertModelToPolicy_def Let_def convert_items_eq)
  have lens: "len (Some (map f (enumerate 0 (elems s)))) = len s" for f and s :: "'b slice"
    by (cases s) (simp_all add: len_def elems_def)
  have policy: "(len (PolicyItems model) = 0 \<longrightarrow>
        P_PolicyItems (fst (convertModelToPolicy ka kd model)) = None)
   \<and> (len (DenyItems model) = 0 \<longrightarrow>
        P_DenyPolicyItems (fst (convertModelToPolicy ka kd model)) = None)
   \<and> (0 < len (PolicyItems model) \<longrightarrow>
        len (P_PolicyItems (fst (convertModelToPolicy ka kd model))) = len (PolicyItems model)
        \<and> P_PolicyItems (fst (convertModelToPolicy ka kd model)) \<noteq> None)
   \<and> (0 < len (DenyItems model) \<longrightarrow>
        len (P_DenyPolicyItems (fst (convertModelToPolicy ka kd model))) = len (DenyItems model)
        \<and> P_DenyPolicyItems (fst (convertModelToPolicy ka kd model)) \<noteq> None)"
    unfolding allow deny by (simp add: lens)
  have made: "Users (fst (convertPolicyItem item)) \<noteq> None
   \<and> Groups (fst (convertPolicyItem item)) \<noteq> None
   \<and> Roles (fst (convertPolicyItem item)) \<noteq> None
   \<and> Permissions (fst (convertPolicyItem item)) \<noteq> None"
    by (simp add: convertPolicyItem_def Let_def)
  have made': "Resources (fst (convertPolicyToModel rs policy)) \<noteq> None
   \<and> PolicyItems (fst (convertPolicyToModel rs policy)) \<noteq> None
   \<and> DenyItems (fst (convertPolicyToModel rs policy)) \<noteq> None"
    by (simp add: convertPolicyToModel_def Let_def convert_wire_items_eq)
  from item item' policy made made' show ?thesis
    by blast
qed

theorem empty_lists_omitted_witness:
  "len (Users empty_item) = 0
   \<and> I_Users (fst (convertPolicyItemModel [] empty_item)) = None
   \<and> len (Permissions empty_item) = 0
   \<and> I_Accesses (fst (convertPolicyItemModel [] empty_item)) = None
   \<and> 0 < len (Groups finance_item)
   \<and> I_Groups (fst (convertPolicyItemModel [] finance_item))
        = Some [''finance'', ''finance_analysts'']
   \<and> len (PolicyItems bare_policy) = 0
   \<and> P_PolicyItems (fst (convertModelToPolicy no_order no_order bare_policy)) = None
   \<and> len (DenyItems bare_policy) = 0
   \<and> P_DenyPolicyItems (fst (convertModelToPolicy no_order no_order bare_policy)) = None
   \<and> 0 < len (PolicyItems finance_policy)
   \<and> len (P_PolicyItems (fst (convertModelToPolicy no_order no_order finance_policy))) = 1
   \<and> Users (fst (convertPolicyItem malformed_item)) \<noteq> None
   \<and> DenyItems (fst (convertPolicyToModel [] Policy_zero)) \<noteq> None"
proof -
  have e: "len (Users empty_item) = 0" "len (Permissions empty_item) = 0"
    by (simp_all add: empty_item_def len_def)
  have f: "0 < len (Groups finance_item)"
    "map ValueString (elems (Groups finance_item)) = [''finance'', ''finance_analysts'']"
    by (simp_all add: finance_item_def len_def elems_def)
  have b: "len (PolicyItems bare_policy) = 0" "len (DenyItems bare_policy) = 0"
    by (simp_all add: bare_policy_def len_def)
  have p: "0 < len (PolicyItems finance_policy)" "len (PolicyItems finance_policy) = 1"
    by (simp_all add: finance_policy_def len_def)
  show ?thesis
    using empty_lists_omitted[of empty_item "[]" bare_policy no_order no_order malformed_item
            "[]" Policy_zero]
      empty_lists_omitted[of finance_item "[]" finance_policy no_order no_order malformed_item
            "[]" Policy_zero]
    by (simp add: e f b p)
qed
subsection \<open>Permissions and accesses\<close>

text \<open>
  Claim C5. A rule item that declares the permissions \<open>["read", "write"]\<close> is
  translated to the accesses \<open>[{read, true}, {write, true}]\<close>, exactly. In the other
  direction the permissions of a wire rule item are the types of those accesses whose
  \<open>isAllowed\<close> is true, the others being passed over, and they are the same
  permissions whatever the order of the wire accesses.
\<close>

theorem permissions_accesses:
  "(Permissions itemModel = Some [StringValue ''read'', StringValue ''write''] \<longrightarrow>
      I_Accesses (fst (convertPolicyItemModel ks itemModel))
        = Some [\<lparr>A_Type = ''read'', A_IsAllowed = True\<rparr>,
                \<lparr>A_Type = ''write'', A_IsAllowed = True\<rparr>])
   \<and> set (elems (Permissions (fst (convertPolicyItem item))))
        = {StringValue (A_Type a) |a. a \<in> set (elems (I_Accesses item)) \<and> A_IsAllowed a}
   \<and> (mset (elems (I_Accesses item)) = mset (elems (I_Accesses item')) \<longrightarrow>
        mset (elems (Permissions (fst (convertPolicyItem item))))
          = mset (elems (Permissions (fst (convertPolicyItem item')))))"
proof (intro conjI impI)
  assume "Permissions itemModel = Some [StringValue ''read'', StringValue ''write'']"
  then show "I_Accesses (fst (convertPolicyItemModel ks itemModel))
               = Some [\<lparr>A_Type = ''read'', A_IsAllowed = True\<rparr>,
                       \<lparr>A_Type = ''write'', A_IsAllowed = True\<rparr>]"
    by (simp add: convertPolicyItemModel_def Let_def len_def elems_def)
next
  show "set (elems (Permissions (fst (convertPolicyItem item))))
          = {StringValue (A_Type a) |a. a \<in> set (elems (I_Accesses item)) \<and> A_IsAllowed a}"
    unfolding elems_Permissions_convertPolicyItem by auto
next
  assume "mset (elems (I_Accesses item)) = mset (elems (I_Accesses item'))"
  then have "mset (filter A_IsAllowed (elems (I_Accesses item)))
               = mset (filter A_IsAllowed (elems (I_Accesses item')))"
    by (metis mset_filter)
  then have "mset (map (\<lambda>access. StringValue (A_Type access))
                     (filter A_IsAllowed (elems (I_Accesses item))))
               = mset (map (\<lambda>access. StringValue (A_Type access))
                        (filter A_IsAllowed (elems (I_Accesses item'))))"
    by (metis mset_map)
  then show "mset (elems (Permissions (fst (convertPolicyItem item))))
               = mset (elems (Permissions (fst (convertPolicyItem item'))))"
    unfolding elems_Permissions_convertPolicyItem .
qed

theorem permissions_accesses_witness:
  "Permissions finance_item = Some [StringValue ''read'', StringValue ''write'']
   \<and> I_Accesses (fst (convertPolicyItemModel [] finance_item))
        = Some [\<lparr>A_Type = ''read'', A_IsAllowed = True\<rparr>,
                \<lparr>A_Type = ''write'', A_IsAllowed = True\<rparr>]
   \<and> mset (elems (I_Accesses write_read_item)) = mset (elems (I_Accesses read_write_item))
   \<and> set (elems (Permissions (fst (convertPolicyItem write_read_item))))
        = {StringValue ''read'', StringValue ''write''}
   \<and> mset (elems (Permissions (fst (convertPolicyItem write_read_item))))
        = mset (elems (Permissions (fst (convertPolicyItem read_write_item))))
   \<and> set (elems (Permissions (fst (convertPolicyItem refused_item)))) = {StringValue ''read''}"
proof -
  have p: "Permissions finance_item = Some [StringValue ''read'', StringValue ''write'']"
    by (simp add: finance_item_def)
  have m: "mset (elems (I_Accesses write_read_item)) = mset (elems (I_Accesses read_write_item))"
    by (simp add: write_read_item_def read_write_item_def elems_def)
  have c: "{StringValue (A_Type a) |a. a \<in> set xs \<and> A_IsAllowed a}
             = set (map (\<lambda>a. StringValue (A_Type a)) (filter A_IsAllowed xs))" for xs
    by auto
  have s: "{StringValue (A_Type a) |a. a \<in> set (elems (I_Accesses write_read_item)) \<and> A_IsAllowed a}
             = {StringValue ''read'', StringValue ''write''}"
    unfolding c by (simp add: write_read_item_def elems_def insert_commute)
  have r: "{StringValue (A_Type a) |a. a \<in> set (elems (I_Accesses refused_item)) \<and> A_IsAllowed a}
             = {StringValue ''read''}"
    unfolding c by (simp add: refused_item_def elems_def)
  show ?thesis
    using permissions_accesses[of finance_item "[]" write_read_item read_write_item]
      permissions_accesses[of finance_item "[]" refused_item refused_item]
    by (simp add: p m s r)
qed
subsection \<open>A resource type declared twice\<close>

text \<open>
  Claim C6 says that a resource type declared more than once makes
  \<open>convertModelToPolicy\<close> report a validation error on the duplicate key. It does not:
  the policy below declares \<open>path\<close> twice, no diagnostic is returned, and the wire map
  holds the one entry of the second declaration.
\<close>

theorem duplicate_type_no_diagnostic:
  "map (\<lambda>res. ValueString (Type res)) (elems (Resources duplicate_policy)) = [''path'', ''path'']
   \<and> snd (convertModelToPolicy no_order no_order duplicate_policy) = []
   \<and> P_Resources (fst (convertModelToPolicy no_order no_order duplicate_policy))
        = [(''path'', \<lparr>R_Values = Some [''/data/b''], R_IsExclude = False,
                        R_IsRecursive = False\<rparr>)]"
  by (simp add: snd_convertModelToPolicy P_Resources_convertModelToPolicy duplicate_policy_def
        path_a_def path_b_def elems_def resource_step_def)

text \<open>
  Claim C6, amended. \<open>convertModelToPolicy\<close> never reports a diagnostic. The keys of
  the wire map it builds are unique, and the entry of a resource type is the one built
  from the last declaration of that type; a type that is not declared has no entry.
\<close>

theorem duplicate_type_last_wins:
  "snd (convertModelToPolicy ka kd model) = []
   \<and> distinct (map fst (P_Resources (fst (convertModelToPolicy ka kd model))))
   \<and> map_of (P_Resources (fst (convertModelToPolicy ka kd model))) resType
        = map_option
            (\<lambda>res. \<lparr>R_Values = Some (map ValueString (elems (Values res))),
                     R_IsExclude = ValueBool (IsExclude res),
                     R_IsRecursive = ValueBool (IsRecursive res)\<rparr>)
            (find (\<lambda>res. ValueString (Type res) = resType) (rev (elems (Resources model))))"
proof (intro conjI)
  show "snd (convertModelToPolicy ka kd model) = []"
    by (rule snd_convertModelToPolicy)
  show "distinct (map fst (P_Resources (fst (convertModelToPolicy ka kd model))))"
    unfolding P_Resources_convertModelToPolicy by (rule distinct_resource_steps) simp
  show "map_of (P_Resources (fst (convertModelToPolicy ka kd model))) resType
        = map_option
            (\<lambda>res. \<lparr>R_Values = Some (map ValueString (elems (Values res))),
                     R_IsExclude = ValueBool (IsExclude res),
                     R_IsRecursive = ValueBool (IsRecursive res)\<rparr>)
            (find (\<lambda>res. ValueString (Type res) = resType) (rev (elems (Resources model))))"
    unfolding P_Resources_convertModelToPolicy map_of_resource_steps
    by (simp split: option.splits)
qed

theorem duplicate_type_last_wins_witness:
  "snd (convertModelToPolicy no_order no_order duplicate_policy) = []
   \<and> distinct (map fst (P_Resources (fst (convertModelToPolicy no_order no_order
                                              duplicate_policy))))
   \<and> map_of (P_Resources (fst (convertModelToPolicy no_order no_order duplicate_policy)))
        ''path''
        = Some \<lparr>R_Values = Some [''/data/b''], R_IsExclude = False, R_IsRecursive = False\<rparr>
   \<and> map_of (P_Resources (fst (convertModelToPolicy no_order no_order duplicate_policy)))
        ''database'' = None"
  using duplicate_type_last_wins[of no_order no_order duplicate_policy "''path''"]
    duplicate_type_last_wins[of no_order no_order duplicate_policy "''database''"]
  by (simp add: duplicate_policy_def path_a_def path_b_def elems_def)
subsection \<open>Conditions of a wire rule item\<close>

text \<open>
  Claim C7 says that a wire condition entry holding a value that is no string has its
  key left out of the mapping. It does not, when the values are a list: the entry below
  holds a string and a number, and its type is a key of the result, with the string as
  its value list.
\<close>

theorem mixed_values_key_kept:
  "elems (I_Conditions mixed_values_item)
     = [[(''type'', IString ''ip-range''),
         (''values'', ISlice [IString ''10.0.0.0/8'', IFloat64 5])]]
   \<and> map_of (Conditions (fst (convertPolicyItem mixed_values_item))) ''ip-range''
        = Some (Some [StringValue ''10.0.0.0/8''])"
  by (simp add: convertPolicyItem_def Let_def mixed_values_item_def elems_def condition_step_def)

text \<open>
  Claim C7, amended. The conditions of a wire rule item are flattened into a mapping
  from condition type to value list, and no entry makes the translation fail. An entry
  whose type is no string, or whose values are no list, is passed over; so a condition
  type is absent from the mapping exactly when no entry of that type has a list of
  values. An entry with a string type and a list of values assigns to its type the
  strings of that list, in order, and nothing for the other elements: the key stays,
  with fewer values. When several such entries bear the same type the last of them
  gives the value list, the earlier ones being overwritten.
\<close>

theorem conditions_partial_tolerance:
  "snd (convertPolicyItem item) = []
   \<and> (map_of (Conditions (fst (convertPolicyItem item))) condType = None \<longleftrightarrow>
        (\<forall>condition \<in> set (elems (I_Conditions item)).
           assert_string (map_of condition ''type'') = Some condType \<longrightarrow>
           assert_slice (map_of condition ''values'') = None))
   \<and> (\<forall>vals. map_of (Conditions (fst (convertPolicyItem item))) condType = Some vals \<longleftrightarrow>
        (\<exists>before condition after condValues.
           elems (I_Conditions item) = before @ condition # after
           \<and> assert_string (map_of condition ''type'') = Some condType
           \<and> assert_slice (map_of condition ''values'') = Some condValues
           \<and> (\<forall>later \<in> set after.
                 assert_string (map_of later ''type'') = Some condType \<longrightarrow>
                 assert_slice (map_of later ''values'') = None)
           \<and> vals = Some (string_values condValues)))
   \<and> string_values condValues = [StringValue s. IString s \<leftarrow> condValues]
   \<and> (assert_string (map_of condition ''type'') = None
        \<or> assert_slice (map_of condition ''values'') = None \<longrightarrow>
        condition_step condition conds = conds)"
proof (intro conjI)
  let ?cs = "elems (I_Conditions item)"
  let ?ok = "\<lambda>c. assert_string (map_of c ''type'') = Some condType
                  \<and> assert_slice (map_of c ''values'') \<noteq> None"
  have m: "map_of (Conditions (fst (convertPolicyItem item))) condType =
             (case find ?ok (rev ?cs) of
                Some c \<Rightarrow> Some (Some (string_values (the (assert_slice (map_of c ''values'')))))
              | None \<Rightarrow> None)"
    unfolding Conditions_convertPolicyItem map_of_condition_steps by (simp split: option.splits)
  show "snd (convertPolicyItem item) = []"
    by (rule snd_convertPolicyItem)
  show "map_of (Conditions (fst (convertPolicyItem item))) condType = None \<longleftrightarrow>
        (\<forall>condition \<in> set ?cs.
           assert_string (map_of condition ''type'') = Some condType \<longrightarrow>
           assert_slice (map_of condition ''values'') = None)"
  proof (cases "find ?ok (rev ?cs)")
    case None
    have absent: "map_of (Conditions (fst (convertPolicyItem item))) condType = None"
      unfolding m None by simp
    from None have "\<forall>c \<in> set ?cs. \<not> ?ok c"
      by (auto simp: find_None_iff)
    with absent show ?thesis
      by auto
  next
    case (Some c)
    have present: "map_of (Conditions (fst (convertPolicyItem item))) condType \<noteq> None"
      unfolding m Some by simp
    from Some have "c \<in> set ?cs" "?ok c"
      by (auto dest: find_Some_member)
    with present show ?thesis
      by auto
  qed
  show "\<forall>vals. map_of (Conditions (fst (convertPolicyItem item))) condType = Some vals \<longleftrightarrow>
        (\<exists>before condition after condValues.
           ?cs = before @ condition # after
           \<and> assert_string (map_of condition ''type'') = Some condType
           \<and> assert_slice (map_of condition ''values'') = Some condValues
           \<and> (\<forall>later \<in> set after.
                 assert_string (map_of later ''type'') = Some condType \<longrightarrow>
                 assert_slice (map_of later ''values'') = None)
           \<and> vals = Some (string_values condValues))"
  proof (intro allI iffI)
    fix vals
    assume v: "map_of (Conditions (fst (convertPolicyItem item))) condType = Some vals"
    obtain c where c: "find ?ok (rev ?cs) = Some c"
    proof (cases "find ?ok (rev ?cs)")
      case None
      have "map_of (Conditions (fst (convertPolicyItem item))) condType = None"
        unfolding m None by simp
      with v show ?thesis
        by simp
    next
      case (Some c)
      then show ?thesis
        by (rule that)
    qed
    from find_rev_split[OF c] obtain before after
      where split: "?cs = before @ c # after" "?ok c" "\<forall>z \<in> set after. \<not> ?ok z"
      by blast
    from split(2) obtain condValues
      where condValues: "assert_slice (map_of c ''values'') = Some condValues"
      by auto
    have "map_of (Conditions (fst (convertPolicyItem item))) condType
            = Some (Some (string_values condValues))"
      unfolding m c by (simp add: condValues)
    with v have "vals = Some (string_values condValues)"
      by simp
    with split condValues
    show "\<exists>before condition after condValues.
           ?cs = before @ condition # after
           \<and> assert_string (map_of condition ''type'') = Some condType
           \<and> assert_slice (map_of condition ''values'') = Some condValues
           \<and> (\<forall>later \<in> set after.
                 assert_string (map_of later ''type'') = Some condType \<longrightarrow>
                 assert_slice (map_of later ''values'') = None)
           \<and> vals = Some (string_values condValues)"
      by (intro exI[of _ before] exI[of _ c] exI[of _ after] exI[of _ condValues]) auto
  next
    fix vals
    assume "\<exists>before condition after condValues.
           ?cs = before @ condition # after
           \<and> assert_string (map_of condition ''type'') = Some condType
           \<and> assert_slice (map_of condition ''values'') = Some condValues
           \<and> (\<forall>later \<in> set after.
                 assert_string (map_of later ''type'') = Some condType \<longrightarrow>
                 assert_slice (map_of later ''values'') = None)
           \<and> vals = Some (string_values condValues)"
    then obtain before c after condValues
      where split: "?cs = before @ c # after"
        and c: "assert_string (map_of c ''type'') = Some condType"
          "assert_slice (map_of c ''values'') = Some condValues"
        and later: "\<forall>later \<in> set after.
                 assert_string (map_of later ''type'') = Some condType \<longrightarrow>
                 assert_slice (map_of later ''values'') = None"
        and vals: "vals = Some (string_values condValues)"
      by blast
    from c have "?ok c"
      by simp
    moreover from later have "\<forall>z \<in> set after. \<not> ?ok z"
      by auto
    ultimately have "find ?ok (rev (before @ c # after)) = Some c"
      by (rule find_rev_last)
    then have "find ?ok (rev ?cs) = Some c"
      unfolding split .
    then show "map_of (Conditions (fst (convertPolicyItem item))) condType = Some vals"
      unfolding m by (simp add: c vals)
  qed
  show "string_values condValues = [StringValue s. IString s \<leftarrow> condValues]"
    by (rule string_values_eq)
  show "assert_string (map_of condition ''type'') = None
        \<or> assert_slice (map_of condition ''values'') = None \<longrightarrow>
        condition_step condition conds = conds"
    by (auto simp: condition_step_def split: option.splits)
qed

theorem conditions_partial_tolerance_witness:
  "snd (convertPolicyItem malformed_item) = []
   \<and> map_of (Conditions (fst (convertPolicyItem malformed_item))) ''expiry'' = None
   \<and> map_of (Conditions (fst (convertPolicyItem malformed_item))) ''ip-range''
        = Some (Some [StringValue ''10.0.0.0/8''])
   \<and> map_of (Conditions (fst (convertPolicyItem repeated_item))) ''ip-range''
        = Some (Some [StringValue ''192.168.0.0/16''])
   \<and> string_values [IString ''10.0.0.0/8'', IFloat64 5] = [StringValue ''10.0.0.0/8'']
   \<and> assert_slice (map_of [(''type'', IString ''expiry''),
                             (''values'', IString ''2030-01-01'')] ''values'') = None
   \<and> condition_step [(''type'', IString ''expiry''), (''values'', IString ''2030-01-01'')] []
        = []"
proof -
  let ?expiry = "[(''type'', IString ''expiry''), (''values'', IString ''2030-01-01'')]"
  let ?number = "[(''type'', IFloat64 1), (''values'', ISlice [])]"
  let ?office = "[(''type'', IString ''ip-range''), (''values'', ISlice [IString ''10.0.0.0/8''])]"
  let ?mixed = "[(''type'', IString ''ip-range''),
                 (''values'', ISlice [IString ''10.0.0.0/8'', IFloat64 5])]"
  let ?home = "[(''type'', IString ''ip-range''),
                (''values'', ISlice [IString ''192.168.0.0/16''])]"
  note t = conditions_partial_tolerance[of malformed_item _
      "[IString ''10.0.0.0/8'', IFloat64 5]" ?expiry "[]"]
  note r = conditions_partial_tolerance[of repeated_item "''ip-range''"]
  have cs: "elems (I_Conditions malformed_item) = [?expiry, ?number, ?office]"
    by (simp add: malformed_item_def elems_def)
  have rs: "elems (I_Conditions repeated_item) = [?mixed, ?home]"
    by (simp add: repeated_item_def elems_def)
  have 1: "snd (convertPolicyItem malformed_item) = []"
    using t[of "''expiry''"] by simp
  have 2: "map_of (Conditions (fst (convertPolicyItem malformed_item))) ''expiry'' = None"
    using t[of "''expiry''"] by (simp add: cs)
  have "\<exists>before condition after condValues.
           elems (I_Conditions malformed_item) = before @ condition # after
           \<and> assert_string (map_of condition ''type'') = Some ''ip-range''
           \<and> assert_slice (map_of condition ''values'') = Some condValues
           \<and> (\<forall>later \<in> set after.
                 assert_string (map_of later ''type'') = Some ''ip-range'' \<longrightarrow>
                 assert_slice (map_of later ''values'') = None)
           \<and> Some [StringValue ''10.0.0.0/8''] = Some (string_values condValues)"
    unfolding cs
    by (intro exI[of _ "[?expiry, ?number]"] exI[of _ ?office] exI[of _ "[]"]
          exI[of _ "[IString ''10.0.0.0/8'']"]) simp
  with t[of "''ip-range''"]
  have 3: "map_of (Conditions (fst (convertPolicyItem malformed_item))) ''ip-range''
             = Some (Some [StringValue ''10.0.0.0/8''])"
    by blast
  have "\<exists>before condition after condValues.
           elems (I_Conditions repeated_item) = before @ condition # after
           \<and> assert_string (map_of condition ''type'') = Some ''ip-range''
           \<and> assert_slice (map_of condition ''values'') = Some condValues
           \<and> (\<forall>later \<in> set after.
                 assert_string (map_of later ''type'') = Some ''ip-range'' \<longrightarrow>
                 assert_slice (map_of later ''values'') = None)
           \<and> Some [StringValue ''192.168.0.0/16''] = Some (string_values condValues)"
    unfolding rs
    by (intro exI[of _ "[?mixed]"] exI[of _ ?home] exI[of _ "[]"]
          exI[of _ "[IString ''192.168.0.0/16'']"]) simp
  with r have 4: "map_of (Conditions (fst (convertPolicyItem repeated_item))) ''ip-range''
                    = Some (Some [StringValue ''192.168.0.0/16''])"
    by blast
  have 5: "string_values [IString ''10.0.0.0/8'', IFloat64 5] = [StringValue ''10.0.0.0/8'']"
    using t[of "''expiry''"] by simp
  have 6: "assert_slice (map_of ?expiry ''values'') = None"
    by simp
  have 7: "condition_step ?expiry [] = []"
    using t[of "''expiry''"] 6 by blast
  from 1 2 3 4 5 6 7 show ?thesis
    by blast
qed
subsection \<open>Declarative to wire and back\<close>




















section \<open>Properties of the reconciler and of the lookup\<close>

lemma set_Append: "set (Append diags new) = set diags \<union> set new"
  by (induction new arbitrary: diags) auto

lemma Append_Nil: "Append diags [] = diags"
  by simp

lemma HasError_AddError: "HasError (AddError summary detail diags)"
proof -
  have "ErrorDiagnostic summary detail \<in> set (AddError summary detail diags)"
    by (simp add: AddError_def set_Append)
  moreover have "is_error (ErrorDiagnostic summary detail)"
    by simp
  ultimately show ?thesis
    unfolding HasError_def list_ex_iff by blast
qed

lemma Diagnostics_Append_Nil: "Diagnostics_Append [] resp = resp"
  by (simp add: Diagnostics_Append_def)

lemma convertModelToPolicy_pair:
  obtains policy where "convertModelToPolicy ka kd model = (policy, [])"
  using snd_convertModelToPolicy[of ka kd model]
  by (cases "convertModelToPolicy ka kd model") simp

subsection \<open>Read\<close>

text \<open>
  Claim C4. Take a Read whose state has an id, and let the GET reach the service. If
  the answer is 404, the resource is removed from the state and no diagnostic is added.
  If the answer is neither 404 nor 200 (500, say), the state is the prior state, and the
  one diagnostic added is an error whose detail carries that status code.
\<close>

theorem read_not_found_and_api_error:
  assumes "stateGet = (diags, state)"
    and "\<not> HasError (Append (Diagnostics resp) diags)"
    and "\<not> IsNull (ID state)"
    and "NewRequest pf ''GET''
           (Endpoint client @ ''/service/public/v2/api/policy/'' @ ValueString (ID state))
           None = Inr request"
    and "Do pf (Header_Set ''Accept'' ''application/json''
                  (Header_Set ''Authorization'' (AuthHeader client) request)) = Inr response"
  shows "(StatusCode response = 404 \<longrightarrow>
            State (fst (Read pf client stateGet resp)) = None
            \<and> Diagnostics (fst (Read pf client stateGet resp))
                 = Append (Diagnostics resp) diags
            \<and> \<not> HasError (Diagnostics (fst (Read pf client stateGet resp))))
         \<and> (StatusCode response \<noteq> 404 \<and> StatusCode response \<noteq> 200 \<longrightarrow>
              State (fst (Read pf client stateGet resp)) = State resp
              \<and> Diagnostics (fst (Read pf client stateGet resp))
                   = Append (Append (Diagnostics resp) diags)
                       [ErrorDiagnostic ''Error Reading Ranger Policy''
                          (Sprintf ''API returned unexpected status code: %d''
                             [OpInt (StatusCode response)])]
              \<and> HasError (Diagnostics (fst (Read pf client stateGet resp))))"
proof (intro conjI impI)
  assume "StatusCode response = 404"
  with assms have "fst (Read pf client stateGet resp)
                     = RemoveResource (Diagnostics_Append diags resp)"
    by (simp add: Read_def Diagnostics_Append_def Let_def)
  with assms(2)
  show "State (fst (Read pf client stateGet resp)) = None"
    and "Diagnostics (fst (Read pf client stateGet resp)) = Append (Diagnostics resp) diags"
    and "\<not> HasError (Diagnostics (fst (Read pf client stateGet resp)))"
    by (simp_all add: RemoveResource_def Diagnostics_Append_def)
next
  assume "StatusCode response \<noteq> 404 \<and> StatusCode response \<noteq> 200"
  with assms have r: "fst (Read pf client stateGet resp)
                     = Diagnostics_AddError ''Error Reading Ranger Policy''
                         (Sprintf ''API returned unexpected status code: %d''
                            [OpInt (StatusCode response)])
                         (Diagnostics_Append diags resp)"
    by (simp add: Read_def Diagnostics_Append_def Let_def)
  show "State (fst (Read pf client stateGet resp)) = State resp"
    and "Diagnostics (fst (Read pf client stateGet resp))
           = Append (Append (Diagnostics resp) diags)
               [ErrorDiagnostic ''Error Reading Ranger Policy''
                  (Sprintf ''API returned unexpected status code: %d''
                     [OpInt (StatusCode response)])]"
    unfolding r by (simp_all add: Diagnostics_AddError_def Diagnostics_Append_def AddError_def)
  show "HasError (Diagnostics (fst (Read pf client stateGet resp)))"
    unfolding r by (simp add: Diagnostics_AddError_def HasError_AddError)
qed

theorem read_not_found_and_api_error_witness:
  "State (fst (Read (remote 404 Policy_zero []) client0 ([], stored_policy) prior)) = None
   \<and> Diagnostics (fst (Read (remote 404 Policy_zero []) client0 ([], stored_policy) prior)) = []
   \<and> State (fst (Read (remote 500 Policy_zero []) client0 ([], stored_policy) prior))
        = Some stored_policy
   \<and> Diagnostics (fst (Read (remote 500 Policy_zero []) client0 ([], stored_policy) prior))
        = [ErrorDiagnostic ''Error Reading Ranger Policy''
             (Sprintf ''API returned unexpected status code: %d'' [OpInt 500])]"
proof -
  have i: "\<not> IsNull (ID stored_policy)" "ValueString (ID stored_policy) = ''42''"
    by (simp_all add: stored_policy_def)
  have p: "\<not> HasError (Append (Diagnostics prior) [])" "Diagnostics prior = []"
    "State prior = Some stored_policy"
    by (simp_all add: prior_def HasError_def)
  have n: "NewRequest (remote status Policy_zero []) ''GET''
             (Endpoint client0 @ ''/service/public/v2/api/policy/''
                @ ValueString (ID stored_policy)) None
           = Inr \<lparr>Method = ''GET'',
                  URL = Endpoint client0 @ ''/service/public/v2/api/policy/''
                          @ ValueString (ID stored_policy),
                  Query = [], Header = [], ReqBody = None\<rparr>" for status
    by (simp add: remote_def)
  have d: "Do (remote status Policy_zero []) request
             = Inr \<lparr>StatusCode = status, Body = ''{}''\<rparr>" for status request
    by (simp add: remote_def)
  show ?thesis
    using read_not_found_and_api_error[OF refl p(1) i(1) n d, of 404]
      read_not_found_and_api_error[OF refl p(1) i(1) n d, of 500]
    by (simp add: p)
qed
subsection \<open>The ids that parseInt64 accepts\<close>

lemma space_rune_width_all:
  "list_all (\<lambda>r. r \<noteq> [] \<and> hd r \<noteq> CHR 0x0A \<and> space_width (r @ t) = length r) space_runes"
  by (simp add: space_runes_def space_width_def)

lemma space_rune_width:
  "r \<in> set space_runes \<Longrightarrow> r \<noteq> [] \<and> hd r \<noteq> CHR 0x0A \<and> space_width (r @ t) = length r"
  using space_rune_width_all[of t] by (simp add: list_all_iff)

lemma SkipSpace_rune:
  assumes "r \<in> set space_runes"
  shows "SkipSpace (r @ t) = SkipSpace t"
proof -
  from space_rune_width[OF assms, of t]
  obtain c cs where r: "r = c # cs" and c: "c \<noteq> CHR 0x0A"
    and w: "space_width (c # cs @ t) = Suc (length cs)"
    by (cases r) auto
  show ?thesis
    unfolding r by (simp add: SkipSpace.simps c w)
qed

lemma SkipSpace_runes:
  "set rs \<subseteq> set space_runes \<Longrightarrow> SkipSpace (concat rs @ t) = SkipSpace t"
  by (induction rs) (simp_all add: SkipSpace_rune)

lemma SkipSpace_stop_all:
  "list_all (\<lambda>c. c \<noteq> CHR 0x0A \<and> space_width (c # cs) = 0) ''+-0123456789''"
  by (simp add: space_width_def)

lemma SkipSpace_stop:
  assumes "c \<in> set ''+-0123456789''"
  shows "SkipSpace (c # cs) = Inr (c # cs)"
proof -
  from assms SkipSpace_stop_all[of cs] have "c \<noteq> CHR 0x0A \<and> space_width (c # cs) = 0"
    unfolding list_all_iff by blast
  then show ?thesis
    by (simp add: SkipSpace.simps)
qed

lemma width_cases:
  assumes "w = (if take 1 s \<in> set L1 then 1
                else if take 2 s \<in> set L2 then 2
                else if take 3 s \<in> set L3 then (3 :: nat) else 0)"
    and "w \<noteq> 0"
  shows "take w s \<in> set (L1 @ L2 @ L3)"
  using assms by (auto split: if_splits)

lemma space_width_rune:
  assumes "space_width s \<noteq> 0"
  shows "take (space_width s) s \<in> set space_runes"
  using width_cases[OF space_width_def assms] by (simp add: space_runes_def)

lemma SkipSpace_InrD:
  "SkipSpace s = Inr t \<Longrightarrow> \<exists>rs. set rs \<subseteq> set space_runes \<and> s = concat rs @ t"
proof (induction s rule: SkipSpace.induct)
  case 1
  then have "t = []"
    by (simp add: SkipSpace.simps)
  then show ?case
    by (intro exI[of _ "[]"]) simp
next
  case (2 c cs)
  show ?case
  proof (cases "space_width (c # cs) = 0")
    case True
    with "2.prems" have "t = c # cs"
      by (simp add: SkipSpace.simps split: if_splits)
    then show ?thesis
      by (intro exI[of _ "[]"]) simp
  next
    case False
    with "2.prems" have c: "c \<noteq> CHR 0x0A"
      and rest: "SkipSpace (drop (space_width (c # cs) - 1) cs) = Inr t"
      by (simp_all add: SkipSpace.simps split: if_splits)
    from "2.IH"[OF c False rest]
    obtain rs where rs: "set rs \<subseteq> set space_runes"
      and d: "drop (space_width (c # cs) - 1) cs = concat rs @ t"
      by blast
    let ?r = "take (space_width (c # cs)) (c # cs)"
    from space_width_rune[OF False] have r: "?r \<in> set space_runes" .
    from False have "drop (space_width (c # cs)) (c # cs) = drop (space_width (c # cs) - 1) cs"
      by (cases "space_width (c # cs)") simp_all
    with d have "c # cs = ?r @ concat rs @ t"
      by (metis append_take_drop_id)
    then have "c # cs = concat (?r # rs) @ t"
      by simp
    moreover from r rs have "set (?r # rs) \<subseteq> set space_runes"
      by simp
    ultimately show ?thesis
      by blast
  qed
qed

lemma digit_not_sign:
  "d \<in> set ''0123456789'' \<Longrightarrow> d \<noteq> CHR ''+'' \<and> d \<noteq> CHR ''-'' \<and> d \<in> set ''+-0123456789''"
  by auto

lemma ParseInt_digits:
  assumes "sign = [] \<or> sign = ''+'' \<or> sign = ''-''"
    and "ds \<noteq> []" and "set ds \<subseteq> set ''0123456789''"
  shows "ParseInt (sign @ ds) =
           (if signed sign ds < - (2 ^ 63) \<or> 2 ^ 63 - 1 < signed sign ds
            then Inl (ScanError (OutOfRange (sign @ ds)))
            else Inr (word_of_int (signed sign ds)))"
proof -
  define D where "D = (\<lambda>c. c \<in> set ''0123456789'')"
  define tok where "tok = sign @ ds"
  from assms(2) obtain d ds' where ds: "ds = d # ds'"
    by (cases ds) auto
  with assms(3) have "d \<in> set ''0123456789''"
    by simp
  then have d: "d \<noteq> CHR ''+''" "d \<noteq> CHR ''-''"
    using digit_not_sign by blast+
  from assms(3) have all: "list_all D ds"
    unfolding D_def list_all_iff by blast
  have neg: "(take 1 tok = ''-'') = (sign = ''-'')"
    using assms(1) d by (auto simp: tok_def ds)
  have digits: "(if take 1 tok = ''+'' \<or> take 1 tok = ''-'' then drop 1 tok else tok) = ds"
    using assms(1) d by (auto simp: tok_def ds)
  have "ParseInt tok =
          (if ds = [] \<or> \<not> list_all D ds then Inl (ScanError (InvalidSyntax tok))
           else if signed sign ds < - (2 ^ 63) \<or> 2 ^ 63 - 1 < signed sign ds
                then Inl (ScanError (OutOfRange tok))
                else Inr (word_of_int (signed sign ds)))"
    unfolding ParseInt_def Let_def
    unfolding digits
    unfolding neg signed_def decimal_def D_def ..
  with all assms(2) show ?thesis
    unfolding tok_def by simp
qed

lemma parseInt64_scanned:
  assumes "SkipSpace s = Inr (sign @ ds @ rest)"
    and "sign = [] \<or> sign = ''+'' \<or> sign = ''-''"
    and "ds \<noteq> []" and "set ds \<subseteq> set ''0123456789''"
    and "rest = [] \<or> hd rest \<notin> set ''0123456789''"
  shows "parseInt64 s = ParseInt (sign @ ds)"
proof -
  define D where "D = (\<lambda>c. c \<in> set ''0123456789'')"
  define input where "input = sign @ ds @ rest"
  from assms(3) obtain d ds' where ds: "ds = d # ds'"
    by (cases ds) auto
  with assms(4) have "d \<in> set ''0123456789''"
    by simp
  then have d: "d \<noteq> CHR ''+''" "d \<noteq> CHR ''-''"
    using digit_not_sign by blast+
  have sign: "(if take 1 input = ''+'' \<or> take 1 input = ''-'' then take 1 input else []) = sign"
    using assms(2) d by (auto simp: input_def ds)
  have after: "drop (length sign) input = ds @ rest"
    by (simp add: input_def)
  from assms(5) have "takeWhile D rest = []"
    unfolding D_def by (cases rest) auto
  moreover from assms(4) have "\<And>x. x \<in> set ds \<Longrightarrow> D x"
    unfolding D_def by blast
  ultimately have number: "takeWhile D (ds @ rest) = ds"
    by (simp add: takeWhile_append2)
  have ne: "input \<noteq> []" "ds @ rest \<noteq> []"
    using assms(3) by (simp_all add: input_def)
  have "parseInt64 s =
          (if input = [] then Inl (ScanError EOF)
           else if ds @ rest = [] then Inl (ScanError EOF)
           else if ds = [] then Inl (ScanError ExpectedInteger)
           else ParseInt (sign @ ds))"
    unfolding parseInt64_def assms(1) sum.case Let_def
    unfolding input_def[symmetric] D_def[symmetric] sign after number ..
  with ne assms(3) show ?thesis
    by simp
qed

lemma parseInt64_InrD:
  assumes "parseInt64 s = Inr n"
  shows "\<exists>sign ds rest. SkipSpace s = Inr (sign @ ds @ rest)
           \<and> (sign = [] \<or> sign = ''+'' \<or> sign = ''-'')
           \<and> ds \<noteq> [] \<and> set ds \<subseteq> set ''0123456789''
           \<and> (rest = [] \<or> hd rest \<notin> set ''0123456789'')"
proof -
  define D where "D = (\<lambda>c. c \<in> set ''0123456789'')"
  from assms obtain input where input: "SkipSpace s = Inr input"
    by (cases "SkipSpace s") (simp_all add: parseInt64_def)
  define sign where "sign = (if take 1 input = ''+'' \<or> take 1 input = ''-''
                            then take 1 input else [])"
  define ds where "ds = takeWhile D (drop (length sign) input)"
  define rest where "rest = dropWhile D (drop (length sign) input)"
  have s: "sign = [] \<or> sign = ''+'' \<or> sign = ''-''"
    unfolding sign_def by presburger
  have "take (length sign) input = sign"
  proof (cases "take 1 input = ''+'' \<or> take 1 input = ''-''")
    case True
    then have e: "sign = take 1 input"
      by (simp add: sign_def)
    with True have "sign = ''+'' \<or> sign = ''-''"
      by simp
    then have "length sign = 1"
      by auto
    with e show ?thesis
      by simp
  next
    case False
    then show ?thesis
      by (simp add: sign_def)
  qed
  then have "input = sign @ drop (length sign) input"
    by (metis append_take_drop_id)
  then have i: "input = sign @ ds @ rest"
    by (simp add: ds_def rest_def)
  have "parseInt64 s =
          (if input = [] then Inl (ScanError EOF)
           else if drop (length sign) input = [] then Inl (ScanError EOF)
           else if ds = [] then Inl (ScanError ExpectedInteger)
           else ParseInt (sign @ ds))"
    unfolding parseInt64_def input sum.case Let_def
    unfolding D_def[symmetric] sign_def[symmetric] ds_def[symmetric] ..
  with assms have "ds \<noteq> []"
    by (auto split: if_splits)
  moreover have "set ds \<subseteq> set ''0123456789''"
  proof
    fix x
    assume "x \<in> set ds"
    then have "D x"
      unfolding ds_def by (rule set_takeWhileD[THEN conjunct2])
    then show "x \<in> set ''0123456789''"
      unfolding D_def .
  qed
  moreover have "rest = [] \<or> \<not> D (hd rest)"
    unfolding rest_def using hd_dropWhile[of D] by blast
  then have "rest = [] \<or> hd rest \<notin> set ''0123456789''"
    unfolding D_def .
  ultimately show ?thesis
    using input i s by blast
qed

lemma parseInt64_iff:
  "parseInt64 s = Inr n \<longleftrightarrow>
     (\<exists>rs sign ds rest.
        s = concat rs @ sign @ ds @ rest
        \<and> set rs \<subseteq> set space_runes
        \<and> (sign = [] \<or> sign = ''+'' \<or> sign = ''-'')
        \<and> ds \<noteq> [] \<and> set ds \<subseteq> set ''0123456789''
        \<and> (rest = [] \<or> hd rest \<notin> set ''0123456789'')
        \<and> - (2 ^ 63) \<le> signed sign ds \<and> signed sign ds \<le> 2 ^ 63 - 1
        \<and> n = word_of_int (signed sign ds))"
  (is "?lhs \<longleftrightarrow> ?rhs")
proof
  assume l: ?lhs
  from parseInt64_InrD[OF l]
  obtain sign ds rest where k: "SkipSpace s = Inr (sign @ ds @ rest)"
    and f: "sign = [] \<or> sign = ''+'' \<or> sign = ''-''" "ds \<noteq> []"
      "set ds \<subseteq> set ''0123456789''" "rest = [] \<or> hd rest \<notin> set ''0123456789''"
    by blast
  from SkipSpace_InrD[OF k]
  obtain rs where rs: "set rs \<subseteq> set space_runes" "s = concat rs @ sign @ ds @ rest"
    by blast
  from l have "ParseInt (sign @ ds) = Inr n"
    using parseInt64_scanned[OF k f] by simp
  then have "(if signed sign ds < - (2 ^ 63) \<or> 2 ^ 63 - 1 < signed sign ds
              then Inl (ScanError (OutOfRange (sign @ ds)))
              else Inr (word_of_int (signed sign ds))) = Inr n"
    unfolding ParseInt_digits[OF f(1,2,3)] .
  then have "- (2 ^ 63) \<le> signed sign ds \<and> signed sign ds \<le> 2 ^ 63 - 1
             \<and> n = word_of_int (signed sign ds)"
    by (cases "signed sign ds < - (2 ^ 63) \<or> 2 ^ 63 - 1 < signed sign ds") auto
  with rs f show ?rhs
    by blast
next
  assume ?rhs
  then obtain rs sign ds rest where s: "s = concat rs @ sign @ ds @ rest"
    and rs: "set rs \<subseteq> set space_runes"
    and f: "sign = [] \<or> sign = ''+'' \<or> sign = ''-''" "ds \<noteq> []"
      "set ds \<subseteq> set ''0123456789''" "rest = [] \<or> hd rest \<notin> set ''0123456789''"
    and v: "- (2 ^ 63) \<le> signed sign ds" "signed sign ds \<le> 2 ^ 63 - 1"
      "n = word_of_int (signed sign ds)"
    by blast
  from f(2) obtain d ds' where ds: "ds = d # ds'"
    by (cases ds) auto
  with f(3) have "d \<in> set ''0123456789''"
    by simp
  then have d: "d \<in> set ''+-0123456789''"
    using digit_not_sign by blast
  have "\<exists>c cs. sign @ ds @ rest = c # cs \<and> c \<in> set ''+-0123456789''"
  proof -
    from f(1) consider "sign = []" | "sign = ''+''" | "sign = ''-''"
      by blast
    then show ?thesis
    proof cases
      case 1
      with d show ?thesis
        unfolding ds by (intro exI[of _ d] exI[of _ "ds' @ rest"]) simp
    next
      case 2
      then show ?thesis
        by (intro exI[of _ "CHR ''+''"] exI[of _ "ds @ rest"]) simp
    next
      case 3
      then show ?thesis
        by (intro exI[of _ "CHR ''-''"] exI[of _ "ds @ rest"]) simp
    qed
  qed
  then obtain c cs where "sign @ ds @ rest = c # cs" "c \<in> set ''+-0123456789''"
    by blast
  then have "SkipSpace (sign @ ds @ rest) = Inr (sign @ ds @ rest)"
    using SkipSpace_stop[of c cs] by simp
  then have k: "SkipSpace s = Inr (sign @ ds @ rest)"
    unfolding s by (simp only: SkipSpace_runes[OF rs])
  from v have "\<not> (signed sign ds < - (2 ^ 63) \<or> 2 ^ 63 - 1 < signed sign ds)"
    by simp
  with v(3) show ?lhs
    unfolding parseInt64_scanned[OF k f] ParseInt_digits[OF f(1,2,3)] by simp
qed
subsection \<open>Create\<close>

text \<open>
  Claim C3. On a successful Create (the request is sent, the answer is 200 or 201 and
  its body decodes to a policy) the state written back is the plan with the id issued
  by the service, in decimal, as its only change: every other field is the plan's,
  whatever the service echoes.
\<close>

theorem create_records_only_id:
  assumes "planGet = (diags, plan)"
    and "\<not> HasError (Append (Diagnostics resp) diags)"
    and "Marshal pf (fst (convertModelToPolicy (RangeAllow pf) (RangeDeny pf) plan))
           = Inr policyJSON"
    and "NewRequest pf ''POST'' (Endpoint client @ ''/service/public/v2/api/policy'')
           (Some policyJSON) = Inr request"
    and "Do pf (Header_Set ''Accept'' ''application/json''
                  (Header_Set ''Content-Type'' ''application/json''
                     (Header_Set ''Authorization'' (AuthHeader client) request)))
           = Inr response"
    and "StatusCode response = 200 \<or> StatusCode response = 201"
    and "DecodePolicy pf (Body response) = Inr createdPolicy"
    and "\<not> HasError (StateSet pf (plan\<lparr>ID := StringValue
                                              (Sprintf_d (sint (P_ID createdPolicy)))\<rparr>))"
  shows "State (fst (Create pf client planGet resp))
           = Some (plan\<lparr>ID := StringValue (Sprintf_d (sint (P_ID createdPolicy)))\<rparr>)"
proof -
  obtain policy where policy: "convertModelToPolicy (RangeAllow pf) (RangeDeny pf) plan
                                 = (policy, [])"
    by (rule convertModelToPolicy_pair)
  then have "fst (convertModelToPolicy (RangeAllow pf) (RangeDeny pf) plan) = policy"
    by simp
  with assms(3) have marshal: "Marshal pf policy = Inr policyJSON"
    by simp
  have "fst (Create pf client planGet resp)
          = State_Set pf (plan\<lparr>ID := StringValue (Sprintf_d (sint (P_ID createdPolicy)))\<rparr>)
              (Diagnostics_Append diags resp)"
    using assms(1,2,4,5,6,7)
    by (auto simp add: Create_def Let_def policy marshal Diagnostics_Append_def)
  with assms(8) show ?thesis
    by (simp add: State_Set_def Let_def Diagnostics_Append_def)
qed

theorem create_records_only_id_witness:
  "State (fst (Create (remote 201 echoed_policy []) client0 ([], finance_policy) fresh))
     = Some (finance_policy\<lparr>ID := StringValue ''42''\<rparr>)
   \<and> P_Name echoed_policy = ''FINANCE_REPORTS_ACCESS''
   \<and> Name (finance_policy\<lparr>ID := StringValue ''42''\<rparr>) = StringValue ''finance_reports_access''"
proof -
  have g: "\<not> HasError (Append (Diagnostics fresh) [])"
    by (simp add: fresh_def HasError_def)
  have m: "Marshal (remote 201 echoed_policy []) policy = Inr ''{}''" for policy
    by (simp add: remote_def)
  have n: "NewRequest (remote 201 echoed_policy []) ''POST''
             (Endpoint client0 @ ''/service/public/v2/api/policy'') (Some ''{}'')
           = Inr \<lparr>Method = ''POST'', URL = Endpoint client0 @ ''/service/public/v2/api/policy'',
                  Query = [], Header = [], ReqBody = Some ''{}''\<rparr>"
    by (simp add: remote_def)
  have d: "Do (remote 201 echoed_policy []) request = Inr \<lparr>StatusCode = 201, Body = ''{}''\<rparr>"
    for request
    by (simp add: remote_def)
  have s: "StatusCode \<lparr>StatusCode = 201, Body = ''{}''\<rparr> = 200
           \<or> StatusCode \<lparr>StatusCode = 201, Body = ''{}''\<rparr> = 201"
    by simp
  have c: "DecodePolicy (remote 201 echoed_policy []) body = Inr echoed_policy" for body
    by (simp add: remote_def)
  have e: "\<not> HasError (StateSet (remote 201 echoed_policy []) model)" for model
    by (simp add: remote_def HasError_def)
  have i: "Sprintf_d (sint (P_ID echoed_policy)) = ''42''"
    by (simp add: echoed_policy_def Sprintf_d_def digits.simps)
  have f: "P_Name echoed_policy = ''FINANCE_REPORTS_ACCESS''"
    "Name (finance_policy\<lparr>ID := StringValue ''42''\<rparr>) = StringValue ''finance_reports_access''"
    by (simp_all add: echoed_policy_def finance_policy_def)
  from create_records_only_id[OF refl g m n d s c e] f show ?thesis
    by (simp add: i)
qed

subsection \<open>Update\<close>

text \<open>
  Claim C8 says that an Update whose id is not parseable as a decimal integer fails
  before any request is sent. \<open>parseInt64\<close> reads the number an id starts with and
  does not look at what follows: the id \<open>42abc\<close> is no decimal integer, yet it is
  parsed as 42, the PUT is sent to the address of \<open>42abc\<close>, and the plan is stored.
\<close>

theorem update_accepts_trailing_text:
  "ValueString (ID trailing_policy) = ''42abc''
   \<and> \<not> is_decimal_integer ''42abc''
   \<and> parseInt64 ''42abc'' = Inr 42
   \<and> map Method (snd (Update (remote 200 echoed_policy []) client0 ([], trailing_policy)
                          prior)) = [''PUT'']
   \<and> map URL (snd (Update (remote 200 echoed_policy []) client0 ([], trailing_policy) prior))
        = [''http://ranger.example.com:6080/service/public/v2/api/policy/42abc'']
   \<and> State (fst (Update (remote 200 echoed_policy []) client0 ([], trailing_policy) prior))
        = Some trailing_policy
   \<and> Diagnostics (fst (Update (remote 200 echoed_policy []) client0 ([], trailing_policy)
                          prior)) = []"
proof -
  have i: "ValueString (ID trailing_policy) = ''42abc''"
    by (simp add: trailing_policy_def)
  have n: "\<not> is_decimal_integer ''42abc''"
    by (simp add: is_decimal_integer_def)
  have p: "parseInt64 ''42abc'' = Inr 42"
    by code_simp
  obtain policy where policy: "convertModelToPolicy no_order no_order trailing_policy
                                 = (policy, [])"
    by (rule convertModelToPolicy_pair)
  have u: "Update (remote 200 echoed_policy []) client0 ([], trailing_policy) prior
             = (\<lparr>Diagnostics = [], State = Some trailing_policy\<rparr>,
                [\<lparr>Method = ''PUT'',
                  URL = ''http://ranger.example.com:6080/service/public/v2/api/policy/42abc'',
                  Query = [],
                  Header = [(''Authorization'', [''Basic YWRtaW46YWRtaW4='']),
                            (''Content-Type'', [''application/json'']),
                            (''Accept'', [''application/json''])],
                  ReqBody = Some ''{}''\<rparr>])"
    by (simp add: Update_def Let_def remote_def policy i p Diagnostics_Append_def prior_def
          HasError_def client0_def Header_Set_def State_Set_def)
  from i n p show ?thesis
    unfolding u by simp
qed

text \<open>
  Claim C8, amended. When \<open>parseInt64\<close> does not parse the id of the plan, Update
  sends no request, adds the error of the parse to the diagnostics and leaves the state
  as it was; and whenever Update has sent a request, \<open>parseInt64\<close> has succeeded on
  the id. \<open>parseInt64\<close> parses an id exactly when the id consists of white space
  without a newline (possibly none), an optional sign, one or more decimal digits that
  denote a number of the 64-bit range, and then either nothing or text that does not
  start with a digit; the number is the value. Every other id is refused.
\<close>

theorem update_refuses_unscannable_id:
  assumes "planGet = (diags, plan)"
    and "\<not> HasError (Append (Diagnostics resp) diags)"
  shows "(\<forall>err. parseInt64 (ValueString (ID plan)) = Inl err \<longrightarrow>
            snd (Update pf client planGet resp) = []
            \<and> State (fst (Update pf client planGet resp)) = State resp
            \<and> Diagnostics (fst (Update pf client planGet resp))
                 = Append (Append (Diagnostics resp) diags)
                     [ErrorDiagnostic ''Error Updating Ranger Policy''
                        (Sprintf ''Could not parse policy ID: %s'' [OpErr err])]
            \<and> HasError (Diagnostics (fst (Update pf client planGet resp))))
         \<and> (snd (Update pf client planGet resp) \<noteq> [] \<longrightarrow>
              (\<exists>n. parseInt64 (ValueString (ID plan)) = Inr n))
         \<and> (\<forall>n. parseInt64 (ValueString (ID plan)) = Inr n \<longleftrightarrow>
              (\<exists>rs sign ds rest.
                 ValueString (ID plan) = concat rs @ sign @ ds @ rest
                 \<and> set rs \<subseteq> set space_runes
                 \<and> (sign = [] \<or> sign = ''+'' \<or> sign = ''-'')
                 \<and> ds \<noteq> [] \<and> set ds \<subseteq> set ''0123456789''
                 \<and> (rest = [] \<or> hd rest \<notin> set ''0123456789'')
                 \<and> - (2 ^ 63) \<le> signed sign ds \<and> signed sign ds \<le> 2 ^ 63 - 1
                 \<and> n = word_of_int (signed sign ds)))
         \<and> ((\<exists>err. parseInt64 (ValueString (ID plan)) = Inl err) \<longleftrightarrow>
              \<not> (\<exists>rs sign ds rest.
                   ValueString (ID plan) = concat rs @ sign @ ds @ rest
                   \<and> set rs \<subseteq> set space_runes
                   \<and> (sign = [] \<or> sign = ''+'' \<or> sign = ''-'')
                   \<and> ds \<noteq> [] \<and> set ds \<subseteq> set ''0123456789''
                   \<and> (rest = [] \<or> hd rest \<notin> set ''0123456789'')
                   \<and> - (2 ^ 63) \<le> signed sign ds \<and> signed sign ds \<le> 2 ^ 63 - 1))"
proof (intro conjI allI impI)
  obtain policy where policy: "convertModelToPolicy (RangeAllow pf) (RangeDeny pf) plan
                                 = (policy, [])"
    by (rule convertModelToPolicy_pair)
  {
    fix err
    assume "parseInt64 (ValueString (ID plan)) = Inl err"
    with assms have u: "Update pf client planGet resp
            = (Diagnostics_AddError ''Error Updating Ranger Policy''
                 (Sprintf ''Could not parse policy ID: %s'' [OpErr err])
                 (Diagnostics_Append diags resp), [])"
      by (simp add: Update_def Let_def policy Diagnostics_Append_def)
    show "snd (Update pf client planGet resp) = []"
      and "State (fst (Update pf client planGet resp)) = State resp"
      and "Diagnostics (fst (Update pf client planGet resp))
                 = Append (Append (Diagnostics resp) diags)
                     [ErrorDiagnostic ''Error Updating Ranger Policy''
                        (Sprintf ''Could not parse policy ID: %s'' [OpErr err])]"
      unfolding u
      by (simp_all add: Diagnostics_AddError_def Diagnostics_Append_def AddError_def)
    show "HasError (Diagnostics (fst (Update pf client planGet resp)))"
      unfolding u by (simp add: Diagnostics_AddError_def HasError_AddError)
  }
  {
    assume sent: "snd (Update pf client planGet resp) \<noteq> []"
    show "\<exists>n. parseInt64 (ValueString (ID plan)) = Inr n"
    proof (cases "parseInt64 (ValueString (ID plan))")
      case (Inl err)
      with assms have "snd (Update pf client planGet resp) = []"
        by (simp add: Update_def Let_def policy Diagnostics_Append_def)
      with sent show ?thesis
        by simp
    next
      case (Inr n)
      then show ?thesis
        by simp
    qed
  }
  {
    fix n
    show "parseInt64 (ValueString (ID plan)) = Inr n \<longleftrightarrow>
              (\<exists>rs sign ds rest.
                 ValueString (ID plan) = concat rs @ sign @ ds @ rest
                 \<and> set rs \<subseteq> set space_runes
                 \<and> (sign = [] \<or> sign = ''+'' \<or> sign = ''-'')
                 \<and> ds \<noteq> [] \<and> set ds \<subseteq> set ''0123456789''
                 \<and> (rest = [] \<or> hd rest \<notin> set ''0123456789'')
                 \<and> - (2 ^ 63) \<le> signed sign ds \<and> signed sign ds \<le> 2 ^ 63 - 1
                 \<and> n = word_of_int (signed sign ds))"
      by (rule parseInt64_iff)
  }
  have "(\<exists>err. parseInt64 (ValueString (ID plan)) = Inl err)
          \<longleftrightarrow> \<not> (\<exists>n. parseInt64 (ValueString (ID plan)) = Inr n)"
    by (cases "parseInt64 (ValueString (ID plan))") simp_all
  also have "(\<exists>n. parseInt64 (ValueString (ID plan)) = Inr n) \<longleftrightarrow>
        (\<exists>rs sign ds rest.
                   ValueString (ID plan) = concat rs @ sign @ ds @ rest
                   \<and> set rs \<subseteq> set space_runes
                   \<and> (sign = [] \<or> sign = ''+'' \<or> sign = ''-'')
                   \<and> ds \<noteq> [] \<and> set ds \<subseteq> set ''0123456789''
                   \<and> (rest = [] \<or> hd rest \<notin> set ''0123456789'')
                   \<and> - (2 ^ 63) \<le> signed sign ds \<and> signed sign ds \<le> 2 ^ 63 - 1)"
    unfolding parseInt64_iff by blast
  finally show "(\<exists>err. parseInt64 (ValueString (ID plan)) = Inl err) \<longleftrightarrow>
              \<not> (\<exists>rs sign ds rest.
                   ValueString (ID plan) = concat rs @ sign @ ds @ rest
                   \<and> set rs \<subseteq> set space_runes
                   \<and> (sign = [] \<or> sign = ''+'' \<or> sign = ''-'')
                   \<and> ds \<noteq> [] \<and> set ds \<subseteq> set ''0123456789''
                   \<and> (rest = [] \<or> hd rest \<notin> set ''0123456789'')
                   \<and> - (2 ^ 63) \<le> signed sign ds \<and> signed sign ds \<le> 2 ^ 63 - 1)" .
qed

theorem update_refuses_unscannable_id_witness:
  "parseInt64 (ValueString (ID unparseable_policy)) = Inl (ScanError ExpectedInteger)
   \<and> snd (Update (remote 200 echoed_policy []) client0 ([], unparseable_policy) prior) = []
   \<and> State (fst (Update (remote 200 echoed_policy []) client0 ([], unparseable_policy) prior))
        = Some stored_policy
   \<and> Diagnostics (fst (Update (remote 200 echoed_policy []) client0 ([], unparseable_policy)
                          prior))
        = [ErrorDiagnostic ''Error Updating Ranger Policy''
             (Sprintf ''Could not parse policy ID: %s'' [OpErr (ScanError ExpectedInteger)])]
   \<and> snd (Update (remote 200 echoed_policy []) client0 ([], stored_policy) prior) \<noteq> []
   \<and> parseInt64 (ValueString (ID stored_policy)) = Inr 42
   \<and> parseInt64 (ValueString (ID trailing_policy)) = Inr 42"
proof -
  have p: "\<not> HasError (Append (Diagnostics prior) [])" "Diagnostics prior = []"
    "State prior = Some stored_policy"
    by (simp_all add: prior_def HasError_def)
  have "parseInt64 ''abc'' = Inl (ScanError ExpectedInteger)"
    by code_simp
  then have a: "parseInt64 (ValueString (ID unparseable_policy)) = Inl (ScanError ExpectedInteger)"
    by (simp add: unparseable_policy_def)
  have "parseInt64 ''42'' = Inr 42"
    by code_simp
  then have b: "parseInt64 (ValueString (ID stored_policy)) = Inr 42"
    by (simp add: stored_policy_def)
  obtain policy where policy: "convertModelToPolicy no_order no_order stored_policy = (policy, [])"
    by (rule convertModelToPolicy_pair)
  have sent: "snd (Update (remote 200 echoed_policy []) client0 ([], stored_policy) prior) \<noteq> []"
    by (simp add: Update_def Let_def remote_def policy b Diagnostics_Append_def p HasError_def)
  note refused = update_refuses_unscannable_id[OF refl p(1), of unparseable_policy
      "remote 200 echoed_policy []" client0]
  note trailing = update_refuses_unscannable_id[OF refl p(1), of trailing_policy
      "remote 200 echoed_policy []" client0]
  have v: "signed [] ''42'' = 42"
    by (simp add: signed_def decimal_def)
  have "\<exists>rs sign ds rest.
          ValueString (ID trailing_policy) = concat rs @ sign @ ds @ rest
          \<and> set rs \<subseteq> set space_runes
          \<and> (sign = [] \<or> sign = ''+'' \<or> sign = ''-'')
          \<and> ds \<noteq> [] \<and> set ds \<subseteq> set ''0123456789''
          \<and> (rest = [] \<or> hd rest \<notin> set ''0123456789'')
          \<and> - (2 ^ 63) \<le> signed sign ds \<and> signed sign ds \<le> 2 ^ 63 - 1
          \<and> (42 :: int64) = word_of_int (signed sign ds)"
    by (intro exI[of _ "[]"] exI[of _ "''42''"] exI[of _ "''abc''"])
       (simp add: trailing_policy_def v)
  with trailing have c: "parseInt64 (ValueString (ID trailing_policy)) = Inr 42"
    by blast
  from refused a have "snd (Update (remote 200 echoed_policy []) client0
                              ([], unparseable_policy) prior) = []
    \<and> State (fst (Update (remote 200 echoed_policy []) client0 ([], unparseable_policy) prior))
        = State prior
    \<and> Diagnostics (fst (Update (remote 200 echoed_policy []) client0 ([], unparseable_policy)
                          prior))
        = Append (Append (Diagnostics prior) [])
            [ErrorDiagnostic ''Error Updating Ranger Policy''
               (Sprintf ''Could not parse policy ID: %s'' [OpErr (ScanError ExpectedInteger)])]"
    by blast
  with a b c sent show ?thesis
    by (simp add: p)
qed

subsection \<open>Lookup by service and name\<close>

text \<open>
  Claim C2. \<open>getPolicyByServiceAndName\<close> compares the names itself. Whenever it
  returns without an error, the policy it returns bears exactly the requested name; and
  when the search is answered with 200 and a list that decodes, it returns an element
  of that list without an error if one bears exactly the requested name, and the
  not-found error with no policy when none does. A search for \<open>foo\<close> answered with
  the one policy \<open>foo_v2\<close> is not found.
\<close>

theorem lookup_exact_name:
  "(\<not> HasError (snd (fst (getPolicyByServiceAndName pf client service name))) \<longrightarrow>
      P_Name (fst (fst (getPolicyByServiceAndName pf client service name))) = name)
   \<and> (NewRequest pf ''GET''
         (Endpoint client @ ''/service/public/v2/api/service/'' @ PathEscape pf service
            @ ''/policy'') None = Inr request
       \<and> Do pf (Header_Set ''Accept'' ''application/json''
                  (Header_Set ''Authorization'' (AuthHeader client)
                     (request\<lparr>Query := Query request @ [(''policyName'', name)]\<rparr>)))
           = Inr response
       \<and> StatusCode response = 200
       \<and> DecodePolicies pf (Body response) = Inr policies \<longrightarrow>
       ((\<forall>policy \<in> set policies. P_Name policy \<noteq> name) \<longrightarrow>
          fst (getPolicyByServiceAndName pf client service name)
            = (Policy_zero,
               [ErrorDiagnostic ''Ranger Policy Not Found''
                  (Sprintf (''No policy found with service '' @ [CHR 0x27] @ ''%s''
                              @ [CHR 0x27] @ '' and name '' @ [CHR 0x27] @ ''%s''
                              @ [CHR 0x27])
                     [OpStr service, OpStr name])]))
       \<and> ((\<exists>policy \<in> set policies. P_Name policy = name) \<longrightarrow>
            snd (fst (getPolicyByServiceAndName pf client service name)) = []
            \<and> fst (fst (getPolicyByServiceAndName pf client service name)) \<in> set policies
            \<and> P_Name (fst (fst (getPolicyByServiceAndName pf client service name))) = name))"
proof (intro conjI impI)
  assume "\<not> HasError (snd (fst (getPolicyByServiceAndName pf client service name)))"
  then show "P_Name (fst (fst (getPolicyByServiceAndName pf client service name))) = name"
    by (auto simp: getPolicyByServiceAndName_def Let_def HasError_AddError
          split: sum.splits if_splits option.splits dest: find_Some_member)
next
  assume a: "NewRequest pf ''GET''
         (Endpoint client @ ''/service/public/v2/api/service/'' @ PathEscape pf service
            @ ''/policy'') None = Inr request
       \<and> Do pf (Header_Set ''Accept'' ''application/json''
                  (Header_Set ''Authorization'' (AuthHeader client)
                     (request\<lparr>Query := Query request @ [(''policyName'', name)]\<rparr>)))
           = Inr response
       \<and> StatusCode response = 200
       \<and> DecodePolicies pf (Body response) = Inr policies"
  then have r: "fst (getPolicyByServiceAndName pf client service name) =
      (case find (\<lambda>policy. P_Name policy = name) policies of
         Some policy \<Rightarrow> (policy, [])
       | None \<Rightarrow>
           (Policy_zero,
            AddError ''Ranger Policy Not Found''
              (Sprintf (''No policy found with service '' @ [CHR 0x27] @ ''%s''
                          @ [CHR 0x27] @ '' and name '' @ [CHR 0x27] @ ''%s''
                          @ [CHR 0x27])
                 [OpStr service, OpStr name]) []))"
    by (simp add: getPolicyByServiceAndName_def Let_def split: option.splits)
  {
    assume "\<forall>policy \<in> set policies. P_Name policy \<noteq> name"
    then have "find (\<lambda>policy. P_Name policy = name) policies = None"
      by (simp add: find_None_iff)
    then show "fst (getPolicyByServiceAndName pf client service name)
            = (Policy_zero,
               [ErrorDiagnostic ''Ranger Policy Not Found''
                  (Sprintf (''No policy found with service '' @ [CHR 0x27] @ ''%s''
                              @ [CHR 0x27] @ '' and name '' @ [CHR 0x27] @ ''%s''
                              @ [CHR 0x27])
                     [OpStr service, OpStr name])])"
      unfolding r by (simp add: AddError_def)
  }
  assume "\<exists>policy \<in> set policies. P_Name policy = name"
  then obtain policy where f: "find (\<lambda>policy. P_Name policy = name) policies = Some policy"
    by (cases "find (\<lambda>policy. P_Name policy = name) policies") (auto simp: find_None_iff)
  then have "policy \<in> set policies \<and> P_Name policy = name"
    by (rule find_Some_member)
  then show "snd (fst (getPolicyByServiceAndName pf client service name)) = []"
    and "fst (fst (getPolicyByServiceAndName pf client service name)) \<in> set policies"
    and "P_Name (fst (fst (getPolicyByServiceAndName pf client service name))) = name"
    unfolding r f by simp_all
qed

theorem lookup_exact_name_witness:
  "fst (getPolicyByServiceAndName (remote 200 Policy_zero [named ''foo_v2'' 7]) client0
          ''hive'' ''foo'')
     = (Policy_zero,
        [ErrorDiagnostic ''Ranger Policy Not Found''
           (Sprintf (''No policy found with service '' @ [CHR 0x27] @ ''%s''
                       @ [CHR 0x27] @ '' and name '' @ [CHR 0x27] @ ''%s''
                       @ [CHR 0x27])
              [OpStr ''hive'', OpStr ''foo''])])
   \<and> fst (getPolicyByServiceAndName
             (remote 200 Policy_zero [named ''foo_v2'' 7, named ''foo'' 8]) client0
             ''hive'' ''foo'')
        = (named ''foo'' 8, [])"
proof -
  let ?one = "remote 200 Policy_zero [named ''foo_v2'' 7]"
  let ?two = "remote 200 Policy_zero [named ''foo_v2'' 7, named ''foo'' 8]"
  let ?request = "\<lparr>Method = ''GET'',
                    URL = Endpoint client0 @ ''/service/public/v2/api/service/'' @ ''hive''
                            @ ''/policy'',
                    Query = [], Header = [], ReqBody = None\<rparr>"
  let ?response = "\<lparr>StatusCode = 200, Body = ''{}''\<rparr>"
  have n: "NewRequest (remote 200 Policy_zero policies) ''GET''
             (Endpoint client0 @ ''/service/public/v2/api/service/''
                @ PathEscape (remote 200 Policy_zero policies) ''hive'' @ ''/policy'') None
           = Inr ?request" for policies
    by (simp add: remote_def)
  have d: "Do (remote 200 Policy_zero policies) request = Inr ?response" for policies request
    by (simp add: remote_def)
  have c: "DecodePolicies (remote 200 Policy_zero policies) (Body ?response) = Inr policies"
    for policies
    by (simp add: remote_def)
  have names: "P_Name (named ''foo_v2'' 7) \<noteq> ''foo''" "P_Name (named ''foo'' 8) = ''foo''"
    by (simp_all add: named_def)
  have one: "fst (getPolicyByServiceAndName ?one client0 ''hive'' ''foo'')
     = (Policy_zero,
        [ErrorDiagnostic ''Ranger Policy Not Found''
           (Sprintf (''No policy found with service '' @ [CHR 0x27] @ ''%s''
                       @ [CHR 0x27] @ '' and name '' @ [CHR 0x27] @ ''%s''
                       @ [CHR 0x27])
              [OpStr ''hive'', OpStr ''foo''])])"
    using lookup_exact_name[of ?one client0 "''hive''" "''foo''" ?request ?response
        "[named ''foo_v2'' 7]"] n d c names
    by simp
  have two: "snd (fst (getPolicyByServiceAndName ?two client0 ''hive'' ''foo'')) = []
     \<and> fst (fst (getPolicyByServiceAndName ?two client0 ''hive'' ''foo''))
          \<in> set [named ''foo_v2'' 7, named ''foo'' 8]
     \<and> P_Name (fst (fst (getPolicyByServiceAndName ?two client0 ''hive'' ''foo''))) = ''foo''"
    using lookup_exact_name[of ?two client0 "''hive''" "''foo''" ?request ?response
        "[named ''foo_v2'' 7, named ''foo'' 8]"] n d c names
    by simp
  with names have "fst (fst (getPolicyByServiceAndName ?two client0 ''hive'' ''foo''))
                     = named ''foo'' 8"
    by auto
  with two have "fst (getPolicyByServiceAndName ?two client0 ''hive'' ''foo'')
                   = (named ''foo'' 8, [])"
    by (simp add: prod_eq_iff)
  with one show ?thesis
    by simp
qed

end
